theory Spec2Isabelle
  imports Main "HOL-Library.Word" "HOL-Library.AList"
begin

unbundle bit_operations_syntax

section \<open>User-space conntrack scanners (bpf/conntrack/cleanup.go)\<close>

subsection \<open>Data model\<close>

text \<open>
  Go's \<open>int64\<close> and \<open>time.Duration\<close> are 64-bit two's complement integers: subtraction
  wraps and comparisons are signed, so they are \<open>64 word\<close> read through \<open>sint\<close>.
\<close>

type_synonym int64 = "64 word"
type_synonym Duration = "64 word"

record Timeouts =
  CreationGracePeriod :: Duration
  TCPPreEstablished :: Duration
  TCPEstablished :: Duration
  TCPFinsSeen :: Duration
  TCPResetSeen :: Duration
  UDPLastSeen :: Duration
  ICMPLastSeen :: Duration

definition Second :: Duration where
  "Second = 1000000000"

definition Hour :: Duration where
  "Hour = 3600 * Second"

definition DefaultTimeouts :: Timeouts where
  "DefaultTimeouts =
     \<lparr> CreationGracePeriod = 10 * Second,
       TCPPreEstablished = 20 * Second,
       TCPEstablished = Hour,
       TCPFinsSeen = 30 * Second,
       TCPResetSeen = 40 * Second,
       UDPLastSeen = 60 * Second,
       ICMPLastSeen = 5 * Second \<rparr>"

datatype ScanVerdict = ScanVerdictOK | ScanVerdictDelete

text \<open>
  Modelled from the spec: the types \<open>conntrack.Key\<close> and \<open>conntrack.Value\<close> and their
  accessors are declared outside \<open>cleanup.go\<close>. The key is the tuple
  \<open>(proto, addrA, portA, addrB, portB)\<close> of section 3.1. The value is a byte array in
  Go whose accessors can be called on an entry of any type, so it is a flat record of
  what the accessors used by the scanners return: the type tag, the two timestamps, the
  DSR-forward flag, the TCP sub-state bits, the original destination of a NAT-Reverse
  entry and the reverse key of a NAT-Forward entry.
\<close>

type_synonym ipv4 = "32 word"

record Key =
  Proto :: "8 word"
  AddrA :: ipv4
  PortA :: "16 word"
  AddrB :: ipv4
  PortB :: "16 word"

datatype EntryType = TypeNormal | TypeNATForward | TypeNATReverse | TypeUnknown

record EntryData =
  established :: bool
  fin_A_seen :: bool
  fin_B_seen :: bool
  rst_seen :: bool

record Value =
  Type :: EntryType
  Created :: int64
  LastSeen :: int64
  IsForwardDSR :: bool
  Data :: EntryData
  OrigIP :: ipv4
  OrigPort :: "16 word"
  ReverseNATKey :: Key

text \<open>
  Modelled from the spec: the accessors of the TCP sub-state ("both FINs seen, or a single
  FIN for DSR-forward flows").
\<close>

definition RSTSeen :: "EntryData \<Rightarrow> bool" where
  "RSTSeen d = rst_seen d"

definition FINsSeen :: "EntryData \<Rightarrow> bool" where
  "FINsSeen d = (fin_A_seen d \<and> fin_B_seen d)"

definition FINsSeenDSR :: "EntryData \<Rightarrow> bool" where
  "FINsSeenDSR d = (fin_A_seen d \<or> fin_B_seen d)"

definition Established :: "EntryData \<Rightarrow> bool" where
  "Established d = established d"

text \<open>IP protocol numbers used by the conntrack package.\<close>

definition ProtoICMP :: "8 word" where
  "ProtoICMP = 1"

definition ProtoTCP :: "8 word" where
  "ProtoTCP = 6"

definition ProtoUDP :: "8 word" where
  "ProtoUDP = 17"

text \<open>
  A map operation fails with an error; \<open>bpf.IsNotExists\<close> recognises the error of a
  missing key, every other error is \<open>ErrOther\<close>.
\<close>

datatype error = ErrNotExist | ErrOther

definition IsNotExists :: "error \<Rightarrow> bool" where
  "IsNotExists e = (e = ErrNotExist)"

type_synonym EntryGet = "Key \<Rightarrow> error + Value"

type_synonym EntryScanner = "Key \<Rightarrow> Value \<Rightarrow> EntryGet \<Rightarrow> ScanVerdict"

subsection \<open>The liveness scanner\<close>

text \<open>
  \<open>NowNanos\<close> is the injected clock. It is read once per scanned entry; the model
  holds the value it returns, which is the same for every entry of a pass.
\<close>

record LivenessScanner =
  timeouts :: Timeouts
  dsr :: bool
  NowNanos :: int64

definition NewLivenessScanner :: "Timeouts \<Rightarrow> bool \<Rightarrow> int64 \<Rightarrow> LivenessScanner" where
  "NewLivenessScanner t d ktime = \<lparr> timeouts = t, dsr = d, NowNanos = ktime \<rparr>"

definition EntryExpired :: "LivenessScanner \<Rightarrow> int64 \<Rightarrow> 8 word \<Rightarrow> Value \<Rightarrow> string \<times> bool" where
  "EntryExpired l nowNanos proto entry =
     (let sinceCreation = nowNanos - Created entry in
      if sint sinceCreation < sint (CreationGracePeriod (timeouts l)) then ('''', False)
      else
        let age = nowNanos - LastSeen entry in
        if proto = ProtoTCP then
          (let dsr = IsForwardDSR entry;
               data = Data entry;
               rstSeen = RSTSeen data
           in if rstSeen \<and> sint age > sint (TCPResetSeen (timeouts l)) then (''RST seen'', True)
              else
                let finsSeen = ((dsr \<and> FINsSeenDSR data) \<or> FINsSeen data) in
                if finsSeen \<and> sint age > sint (TCPFinsSeen (timeouts l)) then (''FINs seen'', True)
                else if Established data \<or> dsr then
                  (if sint age > sint (TCPEstablished (timeouts l))
                   then (''no traffic on established flow for too long'', True)
                   else ('''', False))
                else
                  (if sint age > sint (TCPPreEstablished (timeouts l))
                   then (''no traffic on pre-established flow for too long'', True)
                   else ('''', False)))
        else if proto = ProtoICMP then
          (if sint age > sint (ICMPLastSeen (timeouts l))
           then (''no traffic on ICMP flow for too long'', True)
           else ('''', False))
        else
          (if sint age > sint (UDPLastSeen (timeouts l))
           then (''no traffic on UDP flow for too long'', True)
           else ('''', False)))"

definition ScanEntry :: "LivenessScanner \<Rightarrow> EntryScanner" where
  "ScanEntry l ctKey ctVal get =
     (let now = NowNanos l in
      case Type ctVal of
        TypeNATForward \<Rightarrow>
          (case get (ReverseNATKey ctVal) of
             Inl err \<Rightarrow>
               if IsNotExists err then ScanVerdictDelete else ScanVerdictOK
           | Inr revEntry \<Rightarrow>
               if snd (EntryExpired l now (Proto ctKey) revEntry) then ScanVerdictDelete
               else ScanVerdictOK)
      | TypeNATReverse \<Rightarrow>
          if snd (EntryExpired l now (Proto ctKey) ctVal) then ScanVerdictDelete
          else ScanVerdictOK
      | TypeNormal \<Rightarrow>
          if snd (EntryExpired l now (Proto ctKey) ctVal) then ScanVerdictDelete
          else ScanVerdictOK
      | TypeUnknown \<Rightarrow> ScanVerdictOK)"

subsection \<open>The stale-NAT scanner\<close>

text \<open>
  \<open>net.IP\<close> is a byte slice; the only values the scanner handles are the IPv4 addresses
  read from keys and values and the \<open>nil\<close> of a variable that was never assigned, which
  is \<open>None\<close>.
\<close>

type_synonym net_IP = "ipv4 option"

type_synonym NATChecker = "net_IP \<Rightarrow> 16 word \<Rightarrow> net_IP \<Rightarrow> 16 word \<Rightarrow> 8 word \<Rightarrow> bool"

definition NewStaleNATScanner :: "NATChecker \<Rightarrow> EntryScanner" where
  "NewStaleNATScanner frontendHasBackend k v get =
     (case Type v of
        TypeNormal \<Rightarrow> ScanVerdictOK
      | TypeNATReverse \<Rightarrow>
          (let proto = Proto k;
               ipA = Some (AddrA k);
               ipB = Some (AddrB k);
               portA = PortA k;
               portB = PortB k;
               svcIP = Some (OrigIP v);
               svcPort = OrigPort v
           in if \<not> frontendHasBackend svcIP svcPort ipA portA proto \<and>
                 \<not> frontendHasBackend svcIP svcPort ipB portB proto
              then ScanVerdictDelete
              else ScanVerdictOK)
      | TypeNATForward \<Rightarrow>
          (let proto = Proto k;
               kA = AddrA k;
               kB = AddrB k;
               revKey = ReverseNATKey v;
               revA = AddrA revKey;
               revB = AddrB revKey;
               (svcIP, svcPort, epIP, epPort) =
                 (if kA = revA then (Some kB, PortB k, Some revB, PortB revKey)
                  else if kA = revB then (Some kA, PortA k, Some revA, PortA revKey)
                  else (None, 0, None, 0))
           in if \<not> frontendHasBackend svcIP svcPort epIP epPort proto
              then ScanVerdictDelete
              else ScanVerdictOK)
      | TypeUnknown \<Rightarrow> ScanVerdictOK)"

subsection \<open>The scanner loop\<close>

text \<open>
  Modelled from the spec: \<open>bpf.Map\<close> is declared outside \<open>cleanup.go\<close>. The table is a
  keyed map that is iterated in some order, so it is an association list; \<open>Get\<close> fails
  with the not-exists error on a missing key, \<open>Delete\<close> removes the key from the live
  table, and \<open>Iter\<close> calls its function on every entry of a snapshot of the table
  (section 4.F: the passes "run against a consistent snapshot of the maps") while the
  deletions and look-ups of the callback act on the live table.
\<close>

type_synonym bpf_Map = "(Key \<times> Value) list"

definition Map_Get :: "bpf_Map \<Rightarrow> Key \<Rightarrow> error + Value" where
  "Map_Get m k = (case map_of m k of None \<Rightarrow> Inl ErrNotExist | Some v \<Rightarrow> Inr v)"

definition Map_Delete :: "bpf_Map \<Rightarrow> Key \<Rightarrow> error option \<times> bpf_Map" where
  "Map_Delete m k =
     (if map_of m k = None then (Some ErrNotExist, m) else (None, AList.delete k m))"

record Scanner =
  ctMap :: bpf_Map
  scanners :: "EntryScanner list"

definition NewScanner :: "bpf_Map \<Rightarrow> EntryScanner list \<Rightarrow> Scanner" where
  "NewScanner m scs = \<lparr> ctMap = m, scanners = scs \<rparr>"

text \<open>
  The body of the callback of \<open>Scan\<close>: the scanners run in order on the entry; the first
  that returns the delete verdict has the key deleted and ends the loop. The state is
  the live table and the keys \<open>Delete\<close> was called on so far.
\<close>

fun scan_entry :: "EntryScanner list \<Rightarrow> Key \<Rightarrow> Value \<Rightarrow> bpf_Map \<times> Key list \<Rightarrow> bpf_Map \<times> Key list" where
  "scan_entry [] k v (m, deleted) = (m, deleted)"
| "scan_entry (scanner # rest) k v (m, deleted) =
     (if scanner k v (Map_Get m) = ScanVerdictDelete
      then (snd (Map_Delete m k), deleted @ [k])
      else scan_entry rest k v (m, deleted))"

definition Map_Iter :: "(Key \<Rightarrow> Value \<Rightarrow> 's \<Rightarrow> 's) \<Rightarrow> bpf_Map \<Rightarrow> 's \<Rightarrow> 's" where
  "Map_Iter f snapshot st = foldl (\<lambda>s (k, v). f k v s) st snapshot"

definition Scan :: "Scanner \<Rightarrow> bpf_Map \<times> Key list" where
  "Scan s = Map_Iter (scan_entry (scanners s)) (ctMap s) (ctMap s, [])"

subsection \<open>Well-formed tables\<close>

text \<open>
  A table is consistent when it holds one entry per key and every NAT-Forward entry whose
  reverse key is present points at an entry that is not itself a NAT-Forward and whose key
  has the protocol of the forward key. The datapath creates the two entries of a NATed
  flow from one packet, so the tables it writes are consistent.
\<close>

definition ct_consistent :: "bpf_Map \<Rightarrow> bool" where
  "ct_consistent m =
     (distinct (map fst m) \<and>
      (\<forall>(k, v) \<in> set m.
         Type v = TypeNATForward \<longrightarrow>
           (case map_of m (ReverseNATKey v) of
              None \<Rightarrow> True
            | Some rv \<Rightarrow> Type rv \<noteq> TypeNATForward \<and> Proto (ReverseNATKey v) = Proto k)))"

text \<open>One iteration of a pass that runs the liveness scanner alone.\<close>

definition live_step :: "LivenessScanner \<Rightarrow> bpf_Map \<times> Key list \<Rightarrow> Key \<times> Value \<Rightarrow> bpf_Map \<times> Key list" where
  "live_step l = (\<lambda>s (k, v). scan_entry [ScanEntry l] k v s)"

subsection \<open>The TCP rules as the specification words them\<close>

text \<open>
  The rule the specification gives for a TCP entry of age \<open>age\<close>, tried in order. Each
  component is the condition of the rule and the timeout it compares the age with.
\<close>

definition rst_rule :: "Timeouts \<Rightarrow> Duration \<Rightarrow> Value \<Rightarrow> bool" where
  "rst_rule t age e = (rst_seen (Data e) \<and> sint age > sint (TCPResetSeen t))"

definition fins_rule :: "Timeouts \<Rightarrow> Duration \<Rightarrow> Value \<Rightarrow> bool" where
  "fins_rule t age e =
     (((fin_A_seen (Data e) \<and> fin_B_seen (Data e)) \<or>
       (IsForwardDSR e \<and> (fin_A_seen (Data e) \<or> fin_B_seen (Data e)))) \<and>
      sint age > sint (TCPFinsSeen t))"

definition established_or_dsr :: "Value \<Rightarrow> bool" where
  "established_or_dsr e = (established (Data e) \<or> IsForwardDSR e)"

subsection \<open>Example tables\<close>

definition ex_scanner :: LivenessScanner where
  "ex_scanner = NewLivenessScanner DefaultTimeouts False (100 * Second)"

definition ex_zero_key :: Key where
  "ex_zero_key = \<lparr> Proto = 0, AddrA = 0, PortA = 0, AddrB = 0, PortB = 0 \<rparr>"

definition ex_no_flags :: EntryData where
  "ex_no_flags = \<lparr> established = False, fin_A_seen = False, fin_B_seen = False, rst_seen = False \<rparr>"

text \<open>A TCP flow from 10.0.0.5:40000 to the service 10.96.0.1:80, backend 10.0.0.9:8080.\<close>

definition ex_fwd_key :: Key where
  "ex_fwd_key = \<lparr> Proto = 6, AddrA = 0x0A000005, PortA = 40000, AddrB = 0x0A600001, PortB = 80 \<rparr>"

definition ex_rev_key :: Key where
  "ex_rev_key = \<lparr> Proto = 6, AddrA = 0x0A000005, PortA = 40000, AddrB = 0x0A000009, PortB = 8080 \<rparr>"

definition ex_fwd :: Value where
  "ex_fwd = \<lparr> Type = TypeNATForward, Created = 10 * Second, LastSeen = 10 * Second,
              IsForwardDSR = False, Data = ex_no_flags, OrigIP = 0, OrigPort = 0,
              ReverseNATKey = ex_rev_key \<rparr>"

text \<open>Its book-keeping entry: a reset was seen 50 seconds before the scan.\<close>

definition ex_rev_rst :: Value where
  "ex_rev_rst = \<lparr> Type = TypeNATReverse, Created = 10 * Second, LastSeen = 50 * Second,
                  IsForwardDSR = False,
                  Data = \<lparr> established = True, fin_A_seen = False, fin_B_seen = False, rst_seen = True \<rparr>,
                  OrigIP = 0x0A600001, OrigPort = 80, ReverseNATKey = ex_zero_key \<rparr>"

text \<open>The same entry on an established flow that saw traffic 50 seconds before the scan.\<close>

definition ex_rev_live :: Value where
  "ex_rev_live = ex_rev_rst \<lparr> Data := ex_no_flags \<lparr> established := True \<rparr> \<rparr>"

text \<open>Both FINs seen, last traffic 35 seconds before the scan.\<close>

definition ex_rev_fins :: Value where
  "ex_rev_fins = ex_rev_rst \<lparr> LastSeen := 65 * Second,
                   Data := ex_no_flags \<lparr> fin_A_seen := True, fin_B_seen := True \<rparr> \<rparr>"

text \<open>A half-open flow, last traffic 25 seconds before the scan.\<close>

definition ex_rev_syn :: Value where
  "ex_rev_syn = ex_rev_rst \<lparr> LastSeen := 75 * Second, Data := ex_no_flags \<rparr>"

text \<open>An entry created 5 seconds before the scan, with a reset seen long before.\<close>

definition ex_young :: Value where
  "ex_young = ex_rev_rst \<lparr> Created := 95 * Second, LastSeen := 0 \<rparr>"

text \<open>A plain UDP flow that saw traffic 10 seconds before the scan.\<close>

definition ex_udp_key :: Key where
  "ex_udp_key = \<lparr> Proto = 17, AddrA = 0x0A000005, PortA = 5353, AddrB = 0x0A000007, PortB = 53 \<rparr>"

definition ex_udp :: Value where
  "ex_udp = \<lparr> Type = TypeNormal, Created = 10 * Second, LastSeen = 90 * Second,
              IsForwardDSR = False, Data = ex_no_flags, OrigIP = 0, OrigPort = 0,
              ReverseNATKey = ex_zero_key \<rparr>"

text \<open>The forward entry precedes its expired reverse entry in the iteration.\<close>

definition ex_table :: bpf_Map where
  "ex_table = [(ex_fwd_key, ex_fwd), (ex_udp_key, ex_udp), (ex_rev_key, ex_rev_rst)]"

text \<open>
  A chain of two forward entries: the first points at the key of the second, which was
  created 5 seconds before the scan and points at a key that is not in the table.
\<close>

definition ex_mid_key :: Key where
  "ex_mid_key = \<lparr> Proto = 6, AddrA = 0x0A000005, PortA = 40000, AddrB = 0x0A600002, PortB = 81 \<rparr>"

definition ex_chain :: bpf_Map where
  "ex_chain = [(ex_fwd_key, ex_fwd \<lparr> ReverseNATKey := ex_mid_key \<rparr>),
               (ex_mid_key, ex_fwd \<lparr> Created := 95 * Second \<rparr>)]"

text \<open>A control plane that knows the one service of the example and its one backend.\<close>

definition ex_frontendHasBackend :: NATChecker where
  "ex_frontendHasBackend frontIP frontPort backIP backPort proto =
     (frontIP = Some 0x0A600001 \<and> frontPort = 80 \<and> backIP = Some 0x0A000009 \<and>
      backPort = 8080 \<and> proto = 6)"

section \<open>The TC datapath program (bpf-gpl/tc.c)\<close>

text \<open>
  The program is modelled with its helpers as parameters: everything \<open>tc.c\<close> takes from
  the headers it includes (\<open>bpf.h\<close>, \<open>skb.h\<close>, \<open>conntrack.h\<close>, \<open>nat.h\<close>, \<open>routes.h\<close>,
  \<open>icmp.h\<close>, \<open>policy.h\<close>, \<open>jump.h\<close>) and from the kernel is a field of \<open>config\<close>
  (compile-time flags and constants) or of \<open>helpers\<close> (functions). The log macros
  \<open>CALI_DEBUG\<close>, \<open>CALI_INFO\<close>, \<open>CALI_VERB\<close> and the timing of the program are left out.
\<close>

subsection \<open>Constants of the Linux headers\<close>

type_synonym u8 = "8 word"
type_synonym u16 = "16 word"
type_synonym u32 = "32 word"
type_synonym be16 = "16 word"
type_synonym be32 = "32 word"

definition TC_ACT_UNSPEC :: int where
  "TC_ACT_UNSPEC = -1"

definition TC_ACT_SHOT :: int where
  "TC_ACT_SHOT = 2"

definition TC_ACT_REDIRECT :: int where
  "TC_ACT_REDIRECT = 7"

definition ETH_P_IP :: u16 where
  "ETH_P_IP = 0x0800"

definition ETH_P_ARP :: u16 where
  "ETH_P_ARP = 0x0806"

definition ETH_P_IPV6 :: u16 where
  "ETH_P_IPV6 = 0x86DD"

definition IPPROTO_ICMP :: u8 where
  "IPPROTO_ICMP = 1"

definition IPPROTO_IPIP :: u8 where
  "IPPROTO_IPIP = 4"

definition IPPROTO_TCP :: u8 where
  "IPPROTO_TCP = 6"

definition IPPROTO_UDP :: u8 where
  "IPPROTO_UDP = 17"

definition BPF_F_INGRESS :: u32 where
  "BPF_F_INGRESS = 1"

definition BPF_FIB_LOOKUP_OUTPUT :: u32 where
  "BPF_FIB_LOOKUP_OUTPUT = 2"

definition BPF_F_PSEUDO_HDR :: u32 where
  "BPF_F_PSEUDO_HDR = 0x10"

definition BPF_F_MARK_MANGLED_0 :: u32 where
  "BPF_F_MARK_MANGLED_0 = 0x20"

definition sizeof_ethhdr :: nat where
  "sizeof_ethhdr = 14"

definition offsetof_iphdr_check :: nat where
  "offsetof_iphdr_check = 10"

definition offsetof_tcphdr_check :: nat where
  "offsetof_tcphdr_check = 16"

definition offsetof_udphdr_check :: nat where
  "offsetof_udphdr_check = 6"

subsection \<open>Enumerations and structures\<close>

datatype calico_policy_result = CALI_POL_NO_MATCH | CALI_POL_ALLOW | CALI_POL_DENY

datatype calico_reason =
    CALI_REASON_UNKNOWN
  | CALI_REASON_SHORT
  | CALI_REASON_BYPASS
  | CALI_REASON_CSUM_FAIL
  | CALI_REASON_DECAP_FAIL
  | CALI_REASON_ENCAP_FAIL
  | CALI_REASON_ICMP_DF
  | CALI_REASON_RT_UNKNOWN

text \<open>
  The results of the conntrack lookup. The \<open>switch\<close> of the accepted path has a
  \<open>default\<close> branch for every value it does not name; \<open>CALI_CT_INVALID\<close> stands for them.
\<close>

datatype calico_ct_result_type =
    CALI_CT_NEW
  | CALI_CT_ESTABLISHED
  | CALI_CT_ESTABLISHED_BYPASS
  | CALI_CT_ESTABLISHED_SNAT
  | CALI_CT_ESTABLISHED_DNAT
  | CALI_CT_INVALID

record calico_ct_result =
  rc :: calico_ct_result_type
  ct_flags :: u32
  nat_ip :: be32
  nat_port :: u16
  tun_ret_ip :: be32

record calico_nat_dest =
  nd_addr :: be32
  nd_port :: u16

record cali_rt =
  rt_flags :: u32
  if_index :: u32
  next_hop :: be32

text \<open>
  \<open>struct ct_ctx\<close>; the field \<open>tcp\<close> points at the TCP header of the packet when it is
  set, and \<open>skb\<close> at the packet.
\<close>

record ct_ctx =
  ctx_proto :: u8
  ctx_src :: be32
  ctx_sport :: u16
  ctx_dst :: be32
  ctx_dport :: u16
  ctx_nat_tun_src :: be32
  ctx_flags :: u32
  ctx_tcp :: bool
  ctx_orig_dst :: be32
  ctx_orig_dport :: u16

definition zero_ct_ctx :: ct_ctx where
  "zero_ct_ctx = \<lparr> ctx_proto = 0, ctx_src = 0, ctx_sport = 0, ctx_dst = 0, ctx_dport = 0,
                   ctx_nat_tun_src = 0, ctx_flags = 0, ctx_tcp = False, ctx_orig_dst = 0,
                   ctx_orig_dport = 0 \<rparr>"

text \<open>
  \<open>struct cali_tc_state\<close>, the scratch state passed between the chained programs. A
  zero-initialised state has the first value of each enumeration.
\<close>

record cali_tc_state =
  ip_src :: be32
  ip_dst :: be32
  post_nat_ip_dst :: be32
  nat_tun_src :: be32
  pol_rc :: calico_policy_result
  sport :: u16
  dport :: u16
  post_nat_dport :: u16
  ip_proto :: u8
  flags :: u32
  ct_result :: calico_ct_result
  nat_dest :: calico_nat_dest

definition zero_state :: cali_tc_state where
  "zero_state =
     \<lparr> ip_src = 0, ip_dst = 0, post_nat_ip_dst = 0, nat_tun_src = 0,
       pol_rc = CALI_POL_NO_MATCH, sport = 0, dport = 0, post_nat_dport = 0, ip_proto = 0,
       flags = 0,
       ct_result = \<lparr> rc = CALI_CT_NEW, ct_flags = 0, nat_ip = 0, nat_port = 0, tun_ret_ip = 0 \<rparr>,
       nat_dest = \<lparr> nd_addr = 0, nd_port = 0 \<rparr> \<rparr>"

text \<open>
  The frame: the metadata of \<open>struct __sk_buff\<close> that the program reads, and the parts of
  the packet it reads and writes through header pointers: the Ethernet addresses, the
  IPv4 header that \<open>skb_iphdr\<close> points at, and the source and destination port, which the
  TCP and the UDP header both hold in their first four bytes after the IP header. What
  else the packet holds is \<open>payload\<close>, seen by the helpers only.
\<close>

record iphdr =
  ihl :: u8
  ttl :: u8
  ip_protocol :: u8
  tot_len :: be16
  frag_off :: be16
  saddr :: be32
  daddr :: be32

record sk_buff =
  mark :: u32
  ifindex :: u32
  ingress_ifindex :: u32
  protocol :: be16
  data :: nat
  data_end :: nat
  h_dest :: "48 word"
  h_source :: "48 word"
  iph :: iphdr
  l4_source :: be16
  l4_dest :: be16
  payload :: "nat list"

record bpf_fib_lookup =
  family :: u8
  fib_tot_len :: u16
  fib_ifindex :: u32
  l4_protocol :: u8
  fib_sport :: be16
  fib_dport :: be16
  ipv4_src :: be32
  ipv4_dst :: be32
  smac :: "48 word"
  dmac :: "48 word"

text \<open>\<open>struct fwd\<close>. Its field \<open>mark\<close> is \<open>fwd_mark\<close> here.\<close>

record fwd =
  res :: int
  fwd_mark :: u32
  reason :: calico_reason
  fib_flags :: u32
  fib :: bool

subsection \<open>Build configuration\<close>

text \<open>
  Modelled from the spec: the \<open>CALI_F_\<close> macros of \<open>bpf.h\<close>. A program is built for one
  hook, workload-side or host-side, towards or from the endpoint (glossary, "Hook");
  traffic from a workload and traffic from a host endpoint is towards the host namespace.
\<close>

datatype hook = FromWorkload | ToWorkload | FromHEP | ToHEP

record config =
  hook :: hook
  CALI_F_L3 :: bool
  CALI_F_DSR :: bool
  CALI_F_INGRESS :: bool
  CALI_FIB_LOOKUP_ENABLED :: bool
  CALI_DROP_WORKLOAD_TO_HOST :: bool
  CALI_DEBUG_ALLOW_ALL :: bool
  CALI_SET_SKB_MARK :: "u32 option"
  CALI_SKB_MARK_BYPASS :: u32
  CALI_SKB_MARK_BYPASS_FWD :: u32
  CALI_SKB_MARK_BYPASS_FWD_SRC_FIXUP :: u32
  CALI_SKB_MARK_SEEN :: u32
  CALI_SKB_MARK_NAT_OUT :: u32
  CALI_RES_REDIR_IFINDEX :: int
  CALI_CT_FLAG_NAT_OUT :: u32
  CALI_CT_FLAG_DSR_FWD :: u32
  CALI_ST_NAT_OUTGOING :: u32
  CALI_RT_NAT_OUT :: u32
  CALI_RT_IN_POOL :: u32
  CALI_VXLAN_PORT :: u16
  ETH_IPV4_UDP_SIZE :: nat
  cali_host_ip :: be32
  dnat_should_decap :: bool
  dnat_should_encap :: bool
  dnat_return_should_encap :: bool

definition CALI_F_FROM_WEP :: "config \<Rightarrow> bool" where
  "CALI_F_FROM_WEP cfg = (hook cfg = FromWorkload)"

definition CALI_F_TO_WEP :: "config \<Rightarrow> bool" where
  "CALI_F_TO_WEP cfg = (hook cfg = ToWorkload)"

definition CALI_F_FROM_HEP :: "config \<Rightarrow> bool" where
  "CALI_F_FROM_HEP cfg = (hook cfg = FromHEP)"

definition CALI_F_TO_HEP :: "config \<Rightarrow> bool" where
  "CALI_F_TO_HEP cfg = (hook cfg = ToHEP)"

definition CALI_F_WEP :: "config \<Rightarrow> bool" where
  "CALI_F_WEP cfg = (CALI_F_FROM_WEP cfg \<or> CALI_F_TO_WEP cfg)"

definition CALI_F_HEP :: "config \<Rightarrow> bool" where
  "CALI_F_HEP cfg = (\<not> CALI_F_WEP cfg)"

definition CALI_F_TO_HOST :: "config \<Rightarrow> bool" where
  "CALI_F_TO_HOST cfg = (CALI_F_FROM_HEP cfg \<or> CALI_F_FROM_WEP cfg)"

definition CALI_F_FROM_HOST :: "config \<Rightarrow> bool" where
  "CALI_F_FROM_HOST cfg = (\<not> CALI_F_TO_HOST cfg)"

definition FIB_ENABLED :: "config \<Rightarrow> bool" where
  "FIB_ENABLED cfg = (\<not> CALI_F_L3 cfg \<and> CALI_FIB_LOOKUP_ENABLED cfg \<and> CALI_F_TO_HOST cfg)"

text \<open>
  The macros on \<open>struct fwd\<close>: without \<open>FIB_ENABLED\<close> the structure has no \<open>fib\<close> and
  \<open>fib_flags\<close> field, reading gives \<open>false\<close> and the setters do nothing.
\<close>

definition fwd_fib :: "config \<Rightarrow> fwd \<Rightarrow> bool" where
  "fwd_fib cfg f = (FIB_ENABLED cfg \<and> fib f)"

definition fwd_fib_set :: "config \<Rightarrow> fwd \<Rightarrow> bool \<Rightarrow> fwd" where
  "fwd_fib_set cfg f v = (if FIB_ENABLED cfg then f \<lparr> fib := v \<rparr> else f)"

definition fwd_fib_set_flags :: "config \<Rightarrow> fwd \<Rightarrow> u32 \<Rightarrow> fwd" where
  "fwd_fib_set_flags cfg f fl = (if FIB_ENABLED cfg then f \<lparr> fib_flags := fl \<rparr> else f)"

subsection \<open>Helpers\<close>

text \<open>
  The functions and macros of the absent headers and of the kernel. A helper that
  changes the packet returns its return code and the packet it leaves. \<open>cali_jump\<close>
  tells whether a slot of the jump table holds its program, that is whether a tail call
  to it succeeds. \<open>rule_matched\<close> stands for the match macros between \<open>RULE_START\<close> and
  \<open>RULE_END\<close> of a rule: \<open>RULE_END(id, action)\<close> jumps to \<open>action\<close> when rule \<open>id\<close> matched
  (section 4.D: "the first match wins").
\<close>

record helpers =
  host_to_be16 :: "u16 \<Rightarrow> u16"
  be16_to_host :: "u16 \<Rightarrow> u16"
  skb_too_short :: "sk_buff \<Rightarrow> bool"
  skb_has_data_after_tcphdr :: "sk_buff \<Rightarrow> bool"
  skb_shorter :: "sk_buff \<Rightarrow> nat \<Rightarrow> bool"
  skb_is_gso :: "sk_buff \<Rightarrow> bool"
  skb_iphdr_offset :: "sk_buff \<Rightarrow> nat"
  skb_l4hdr_offset :: "sk_buff \<Rightarrow> u8 \<Rightarrow> nat"
  is_vxlan_tunnel :: "sk_buff \<Rightarrow> bool"
  ip_is_dnf :: "iphdr \<Rightarrow> bool"
  ip_frag_no :: "iphdr \<Rightarrow> bool"
  ip_ttl_exceeded :: "iphdr \<Rightarrow> bool"
  ip_dec_ttl :: "sk_buff \<Rightarrow> sk_buff"
  vxlan_v4_encap_too_big :: "sk_buff \<Rightarrow> bool"
  vxlan_v4_decap :: "sk_buff \<Rightarrow> int \<times> sk_buff"
  vxlan_v4_encap :: "sk_buff \<Rightarrow> be32 \<Rightarrow> be32 \<Rightarrow> int \<times> sk_buff"
  icmp_v4_too_big :: "sk_buff \<Rightarrow> int \<times> sk_buff"
  icmp_v4_ttl_exceeded :: "sk_buff \<Rightarrow> int \<times> sk_buff"
  bpf_l3_csum_replace :: "sk_buff \<Rightarrow> nat \<Rightarrow> u32 \<Rightarrow> u32 \<Rightarrow> u32 \<Rightarrow> int \<times> sk_buff"
  bpf_l4_csum_replace :: "sk_buff \<Rightarrow> nat \<Rightarrow> u32 \<Rightarrow> u32 \<Rightarrow> u32 \<Rightarrow> int \<times> sk_buff"
  bpf_redirect :: "u32 \<Rightarrow> u32 \<Rightarrow> int"
  bpf_fib_lookup_helper :: "sk_buff \<Rightarrow> bpf_fib_lookup \<Rightarrow> u32 \<Rightarrow> int \<times> bpf_fib_lookup"
  calico_ct_v4_lookup :: "sk_buff \<Rightarrow> ct_ctx \<Rightarrow> calico_ct_result"
  calico_v4_nat_lookup2 :: "be32 \<Rightarrow> be32 \<Rightarrow> u8 \<Rightarrow> u16 \<Rightarrow> bool \<Rightarrow> calico_nat_dest option"
  cali_rt_lookup :: "be32 \<Rightarrow> cali_rt option"
  cali_rt_lookup_flags :: "be32 \<Rightarrow> u32"
  cali_rt_flags_local_host :: "u32 \<Rightarrow> bool"
  cali_rt_flags_local_workload :: "u32 \<Rightarrow> bool"
  cali_rt_is_local :: "cali_rt \<Rightarrow> bool"
  cali_rt_is_workload :: "cali_rt \<Rightarrow> bool"
  cali_jump :: "nat \<Rightarrow> bool"
  rule_matched :: "nat \<Rightarrow> u8 \<Rightarrow> be32 \<Rightarrow> be32 \<Rightarrow> u16 \<Rightarrow> u16 \<Rightarrow> bool"

subsection \<open>Effects\<close>

text \<open>
  What a run leaves behind: the frame, the slot of the per-CPU state map
  \<open>cali_v4_state\<close> (\<open>None\<close> when its lookup fails) and the calls, in order, of the helpers
  that act on maps, on the packet or on control: the conntrack lookup and creation, the
  NAT lookup, the writes of the state map, the tail calls, the packet helpers, the FIB
  lookup and the redirect. \<open>EvSkbAccepted\<close> marks the entry into
  \<open>calico_tc_skb_accepted\<close> with the state it is given.
\<close>

datatype event =
    EvCtLookup ct_ctx calico_ct_result
  | EvNatLookup be32 be32 u8 u16 bool
  | EvStateWrite cali_tc_state
  | EvCtCreate ct_ctx bool
  | EvTailCall nat
  | EvSkbAccepted cali_tc_state
  | EvVxlanDecap
  | EvVxlanEncap be32 be32
  | EvIcmpTooBig
  | EvIcmpTtlExceeded
  | EvL3CsumReplace
  | EvL4CsumReplace
  | EvFibLookup bpf_fib_lookup u32
  | EvRedirect u32 u32

record world =
  w_skb :: sk_buff
  cali_v4_state :: "cali_tc_state option"
  trace :: "event list"

definition emit :: "event \<Rightarrow> world \<Rightarrow> world" where
  "emit e w = w \<lparr> trace := trace w @ [e] \<rparr>"

text \<open>
  The value a program returns to TC, the reason at the \<open>deny\<close> label of
  \<open>forward_or_drop\<close> when the program left through it, and the world it leaves.
\<close>

record result =
  verdict :: int
  drop_reason :: "calico_reason option"
  final :: world

subsection \<open>The policy tail program\<close>

text \<open>
  \<open>execute_policy_norm\<close> holds one rule, number 0, whose action is \<open>allow\<close> in a build
  with \<open>CALI_DEBUG_ALLOW_ALL\<close> and \<open>deny\<close> otherwise.
\<close>

definition execute_policy_norm ::
    "config \<Rightarrow> helpers \<Rightarrow> u8 \<Rightarrow> be32 \<Rightarrow> be32 \<Rightarrow> u16 \<Rightarrow> u16 \<Rightarrow> calico_policy_result" where
  "execute_policy_norm cfg h proto src dst sp dp =
     (if CALI_DEBUG_ALLOW_ALL cfg
      then (if rule_matched h 0 proto src dst sp dp then CALI_POL_ALLOW else CALI_POL_NO_MATCH)
      else (if rule_matched h 0 proto src dst sp dp then CALI_POL_DENY else CALI_POL_NO_MATCH))"

subsection \<open>\<open>skb_nat_l4_csum_ipv4\<close>\<close>

definition skb_nat_l4_csum_ipv4 ::
    "helpers \<Rightarrow> world \<Rightarrow> nat \<Rightarrow> be32 \<Rightarrow> be32 \<Rightarrow> u16 \<Rightarrow> u16 \<Rightarrow> u32 \<Rightarrow> int \<times> world" where
  "skb_nat_l4_csum_ipv4 h w off ip_from ip_to port_from port_to fl =
     (let (ret, w1) =
            (if ip_from \<noteq> ip_to
             then (let (r, skb') = bpf_l4_csum_replace h (w_skb w) off ip_from ip_to
                                     (fl OR BPF_F_PSEUDO_HDR OR 4)
                   in (r, emit EvL4CsumReplace (w \<lparr> w_skb := skb' \<rparr>)))
             else (0, w))
      in if port_from \<noteq> port_to
         then (let (r, skb') = bpf_l4_csum_replace h (w_skb w1) off (ucast port_from)
                                 (ucast port_to) (fl OR 2)
               in (ret OR r, emit EvL4CsumReplace (w1 \<lparr> w_skb := skb' \<rparr>)))
         else (ret, w1))"

subsection \<open>\<open>forward_or_drop\<close>\<close>

text \<open>The label \<open>deny\<close>.\<close>

definition fod_deny :: "calico_reason \<Rightarrow> world \<Rightarrow> result" where
  "fod_deny rsn w = \<lparr> verdict = TC_ACT_SHOT, drop_reason = Some rsn, final = w \<rparr>"

text \<open>The label \<open>skip_fib\<close>: towards the host the frame is marked; the program returns \<open>rc\<close>.\<close>

definition fod_skip_fib :: "config \<Rightarrow> fwd \<Rightarrow> int \<Rightarrow> world \<Rightarrow> result" where
  "fod_skip_fib cfg f r w =
     \<lparr> verdict = r, drop_reason = None,
       final = (if CALI_F_TO_HOST cfg
                then w \<lparr> w_skb := (w_skb w) \<lparr> mark := fwd_mark f \<rparr> \<rparr>
                else w) \<rparr>"

text \<open>The revalidation \<open>skb->data + sizeof(struct ethhdr) > skb->data_end\<close>.\<close>

definition eth_hdr_short :: "sk_buff \<Rightarrow> bool" where
  "eth_hdr_short skb = (data skb + sizeof_ethhdr > data_end skb)"

text \<open>The branch \<open>rc == CALI_RES_REDIR_IFINDEX\<close>.\<close>

definition fod_redir_ifindex :: "config \<Rightarrow> helpers \<Rightarrow> fwd \<Rightarrow> world \<Rightarrow> result" where
  "fod_redir_ifindex cfg h f w =
     (let redir_flags = (if CALI_F_FROM_HOST cfg then BPF_F_INGRESS else 0) in
      if eth_hdr_short (w_skb w) then fod_deny CALI_REASON_SHORT w
      else
        let skb = w_skb w;
            skb' = skb \<lparr> h_dest := h_source skb, h_source := h_dest skb \<rparr>;
            r = bpf_redirect h (ifindex skb') redir_flags;
            w' = emit (EvRedirect (ifindex skb') redir_flags) (w \<lparr> w_skb := skb' \<rparr>)
        in if r = TC_ACT_REDIRECT then fod_skip_fib cfg f r w' else fod_deny (reason f) w')"

text \<open>The short-circuit FIB lookup, compiled in with \<open>FIB_ENABLED\<close>.\<close>

definition fod_fib :: "config \<Rightarrow> helpers \<Rightarrow> cali_tc_state \<Rightarrow> fwd \<Rightarrow> world \<Rightarrow> result" where
  "fod_fib cfg h state f w =
     (if skb_too_short h (w_skb w) then fod_deny CALI_REASON_SHORT w
      else
        let skb = w_skb w;
            ip_header = iph skb;
            fib_params = \<lparr> family = 2,
                           fib_tot_len = be16_to_host h (tot_len ip_header),
                           fib_ifindex = ingress_ifindex skb,
                           l4_protocol = ip_proto state,
                           fib_sport = host_to_be16 h (sport state),
                           fib_dport = host_to_be16 h (dport state),
                           ipv4_src = ip_src state,
                           ipv4_dst = ip_dst state,
                           smac = 0, dmac = 0 \<rparr>;
            (r, fp) = bpf_fib_lookup_helper h skb fib_params (fib_flags f);
            w1 = emit (EvFibLookup fib_params (fib_flags f)) w
        in if r = 0 then
             (if ip_ttl_exceeded h ip_header then fod_skip_fib cfg f TC_ACT_UNSPEC w1
              else if eth_hdr_short skb then fod_deny CALI_REASON_SHORT w1
              else
                let skb' = skb \<lparr> h_source := smac fp, h_dest := dmac fp \<rparr>;
                    r' = bpf_redirect h (fib_ifindex fp) 0;
                    w2 = emit (EvRedirect (fib_ifindex fp) 0) (w1 \<lparr> w_skb := skb' \<rparr>);
                    w3 = (if r' = TC_ACT_REDIRECT then w2 \<lparr> w_skb := ip_dec_ttl h (w_skb w2) \<rparr>
                          else w2)
                in fod_skip_fib cfg f r' w3)
           else fod_skip_fib cfg f TC_ACT_UNSPEC w1)"

definition forward_or_drop :: "config \<Rightarrow> helpers \<Rightarrow> world \<Rightarrow> cali_tc_state \<Rightarrow> fwd \<Rightarrow> result" where
  "forward_or_drop cfg h w state f =
     (if res f = TC_ACT_SHOT then fod_deny (reason f) w
      else if res f = CALI_RES_REDIR_IFINDEX cfg then fod_redir_ifindex cfg h f w
      else if fwd_fib cfg f then fod_fib cfg h state f w
      else fod_skip_fib cfg f (res f) w)"

subsection \<open>\<open>calico_tc_skb_accepted\<close>\<close>

text \<open>
  The function returns the \<open>struct fwd\<close> and works on the packet and on the state it has
  a pointer to. Its local variables \<open>rc\<close>, \<open>seen_mark\<close>, \<open>fib\<close> and \<open>fib_flags\<close> reach the
  label \<open>allow\<close>, \<open>reason\<close> reaches the label \<open>deny\<close>; each label is a function. The
  fields that the initialiser of a \<open>struct fwd\<close> leaves out are zero; the zero of the
  reason, which is only ever logged, is taken to be \<open>CALI_REASON_UNKNOWN\<close>.
\<close>

type_synonym accepted = "fwd \<times> world \<times> cali_tc_state"

definition acc_allow ::
    "config \<Rightarrow> int \<Rightarrow> u32 \<Rightarrow> bool \<Rightarrow> u32 \<Rightarrow> world \<Rightarrow> cali_tc_state \<Rightarrow> accepted" where
  "acc_allow cfg r seen_mark fb fl w state =
     (fwd_fib_set_flags cfg
        (fwd_fib_set cfg
           \<lparr> res = r, fwd_mark = seen_mark, reason = CALI_REASON_UNKNOWN, fib_flags = 0,
             fib = False \<rparr> fb) fl,
      w, state)"

definition acc_deny :: "calico_reason \<Rightarrow> world \<Rightarrow> cali_tc_state \<Rightarrow> accepted" where
  "acc_deny rsn w state =
     (\<lparr> res = TC_ACT_SHOT, fwd_mark = 0, reason = rsn, fib_flags = 0, fib = False \<rparr>, w, state)"

text \<open>The label \<open>icmp_ttl_exceeded\<close>.\<close>

definition acc_icmp_ttl_exceeded ::
    "config \<Rightarrow> helpers \<Rightarrow> u32 \<Rightarrow> bool \<Rightarrow> world \<Rightarrow> cali_tc_state \<Rightarrow> accepted" where
  "acc_icmp_ttl_exceeded cfg h seen_mark fb w state =
     (if skb_too_short h (w_skb w) then acc_deny CALI_REASON_SHORT w state
      else if ip_frag_no h (iph (w_skb w)) then acc_deny CALI_REASON_UNKNOWN w state
      else
        let (r, skb') = icmp_v4_ttl_exceeded h (w_skb w);
            w' = emit EvIcmpTtlExceeded (w \<lparr> w_skb := skb' \<rparr>)
        in if r \<noteq> 0 then acc_deny CALI_REASON_UNKNOWN w' state
           else acc_allow cfg TC_ACT_UNSPEC seen_mark fb 0 w' state)"

text \<open>The label \<open>icmp_too_big\<close>.\<close>

definition acc_icmp_too_big ::
    "config \<Rightarrow> helpers \<Rightarrow> bool \<Rightarrow> world \<Rightarrow> cali_tc_state \<Rightarrow> accepted" where
  "acc_icmp_too_big cfg h fb w state =
     (if skb_shorter h (w_skb w) (ETH_IPV4_UDP_SIZE cfg) then acc_deny CALI_REASON_SHORT w state
      else
        let (r, skb') = icmp_v4_too_big h (w_skb w);
            w' = emit EvIcmpTooBig (w \<lparr> w_skb := skb' \<rparr>)
        in if r \<noteq> 0 then acc_deny CALI_REASON_ICMP_DF w' state
           else
             let state' = state \<lparr> sport := 0, dport := 0, ip_proto := IPPROTO_ICMP \<rparr>;
                 r' = (if CALI_F_FROM_WEP cfg then CALI_RES_REDIR_IFINDEX cfg else TC_ACT_UNSPEC)
             in acc_allow cfg r' (CALI_SKB_MARK_BYPASS_FWD cfg) fb (0 OR BPF_FIB_LOOKUP_OUTPUT)
                  w' state')"

text \<open>The label \<open>nat_encap\<close>.\<close>

definition acc_nat_encap ::
    "config \<Rightarrow> helpers \<Rightarrow> u32 \<Rightarrow> bool \<Rightarrow> world \<Rightarrow> cali_tc_state \<Rightarrow> accepted" where
  "acc_nat_encap cfg h seen_mark fb w state =
     (let (r, skb') = vxlan_v4_encap h (w_skb w) (ip_src state) (ip_dst state);
          w' = emit (EvVxlanEncap (ip_src state) (ip_dst state)) (w \<lparr> w_skb := skb' \<rparr>)
      in if r \<noteq> 0 then acc_deny CALI_REASON_ENCAP_FAIL w' state
         else
           let state' = state \<lparr> sport := host_to_be16 h (CALI_VXLAN_PORT cfg),
                                dport := host_to_be16 h (CALI_VXLAN_PORT cfg),
                                ip_proto := IPPROTO_UDP \<rparr>;
               fl = (if CALI_F_INGRESS cfg then 0 OR BPF_FIB_LOOKUP_OUTPUT else 0)
           in acc_allow cfg TC_ACT_UNSPEC seen_mark fb fl w' state')"

text \<open>The offsets of the checksums, computed before the \<open>switch\<close> on the conntrack result.\<close>

definition l3_csum_off :: "helpers \<Rightarrow> sk_buff \<Rightarrow> nat" where
  "l3_csum_off h skb = skb_iphdr_offset h skb + offsetof_iphdr_check"

definition l4_csum_off :: "helpers \<Rightarrow> sk_buff \<Rightarrow> u8 \<Rightarrow> nat" where
  "l4_csum_off h skb proto =
     (let ihl4 = ihl (iph skb) * 4 in
      if proto = IPPROTO_TCP then skb_l4hdr_offset h skb ihl4 + offsetof_tcphdr_check
      else if proto = IPPROTO_UDP then skb_l4hdr_offset h skb ihl4 + offsetof_udphdr_check
      else 0)"

text \<open>
  The test before the encapsulation, on the forward path and on the return path: a
  packet with DF set that would be too big once encapsulated, unless it is a TCP GSO
  packet.
\<close>

definition encap_too_big :: "helpers \<Rightarrow> sk_buff \<Rightarrow> cali_tc_state \<Rightarrow> bool" where
  "encap_too_big h skb state =
     (\<not> (ip_proto state = IPPROTO_TCP \<and> skb_is_gso h skb) \<and>
      ip_is_dnf h (iph skb) \<and> vxlan_v4_encap_too_big h skb)"

text \<open>
  The body of \<open>if (encap_needed)\<close> in the DNAT case, with the route \<open>rt\<close> of the
  post-NAT destination.
\<close>

definition acc_dnat_encap ::
    "config \<Rightarrow> helpers \<Rightarrow> bool \<Rightarrow> cali_rt \<Rightarrow> world \<Rightarrow> cali_tc_state \<Rightarrow> accepted" where
  "acc_dnat_encap cfg h fb rt w state =
     (if encap_too_big h (w_skb w) state then acc_icmp_too_big cfg h fb w state
      else
        let state' = state \<lparr> ip_src := cali_host_ip cfg,
                             ip_dst := (if cali_rt_is_workload h rt then next_hop rt
                                        else post_nat_ip_dst state) \<rparr>
        in acc_nat_encap cfg h (CALI_SKB_MARK_BYPASS_FWD cfg) fb w state')"

text \<open>The DNAT proper: the rest of the DNAT case when no encapsulation is needed.\<close>

definition acc_dnat_rewrite ::
    "config \<Rightarrow> helpers \<Rightarrow> u32 \<Rightarrow> bool \<Rightarrow> world \<Rightarrow> cali_tc_state \<Rightarrow> accepted" where
  "acc_dnat_rewrite cfg h seen_mark fb w state =
     (let l3off = l3_csum_off h (w_skb w);
          l4off = l4_csum_off h (w_skb w) (ip_proto state);
          skb = w_skb w;
          skb1 = skb \<lparr> iph := (iph skb) \<lparr> daddr := post_nat_ip_dst state \<rparr> \<rparr>;
          skb2 = (if ip_proto state = IPPROTO_TCP \<or> ip_proto state = IPPROTO_UDP
                  then skb1 \<lparr> l4_dest := host_to_be16 h (post_nat_dport state) \<rparr>
                  else skb1);
          w1 = w \<lparr> w_skb := skb2 \<rparr>;
          (r, w2) = (if l4off \<noteq> 0
                     then skb_nat_l4_csum_ipv4 h w1 l4off (ip_dst state) (post_nat_ip_dst state)
                            (host_to_be16 h (dport state)) (host_to_be16 h (post_nat_dport state))
                            (if ip_proto state = IPPROTO_UDP then BPF_F_MARK_MANGLED_0 else 0)
                     else (0, w1));
          (r3, skb3) = bpf_l3_csum_replace h (w_skb w2) l3off (ip_dst state)
                         (post_nat_ip_dst state) 4;
          w3 = emit EvL3CsumReplace (w2 \<lparr> w_skb := skb3 \<rparr>)
      in if (r OR r3) \<noteq> 0 then acc_deny CALI_REASON_CSUM_FAIL w3 state
         else acc_allow cfg TC_ACT_UNSPEC seen_mark fb 0 w3
                (state \<lparr> dport := post_nat_dport state, ip_dst := post_nat_ip_dst state \<rparr>))"

text \<open>
  The code of \<open>case CALI_CT_ESTABLISHED_DNAT\<close> from the computation of \<open>encap_needed\<close>
  on. A new flow with a NAT destination falls through into it with the context
  \<open>ct_nat_ctx\<close> of the conntrack entry it still has to create.
\<close>

definition acc_dnat ::
    "config \<Rightarrow> helpers \<Rightarrow> u32 \<Rightarrow> bool \<Rightarrow> ct_ctx \<Rightarrow> world \<Rightarrow> cali_tc_state \<Rightarrow> accepted" where
  "acc_dnat cfg h seen_mark fb ct_nat_ctx w state =
     (let rt = (if dnat_should_encap cfg then cali_rt_lookup h (post_nat_ip_dst state) else None) in
      if dnat_should_encap cfg \<and> rt = None then acc_deny CALI_REASON_RT_UNKNOWN w state
      else
        let encap_needed = (case rt of None \<Rightarrow> False | Some r \<Rightarrow> \<not> cali_rt_is_local h r);
            w1 = (if rc (ct_result state) = CALI_CT_NEW
                  then (let ctx = (if CALI_F_DSR cfg \<and> CALI_F_FROM_HEP cfg \<and> encap_needed \<and>
                                      nat_tun_src state = 0
                                   then ct_nat_ctx \<lparr> ctx_flags := ctx_flags ct_nat_ctx OR
                                                       CALI_CT_FLAG_DSR_FWD cfg \<rparr>
                                   else ct_nat_ctx)
                        in emit (EvCtCreate ctx True) w)
                  else w)
        in case rt of
             Some r \<Rightarrow>
               if encap_needed then acc_dnat_encap cfg h fb r w1 state
               else acc_dnat_rewrite cfg h seen_mark fb w1 state
           | None \<Rightarrow> acc_dnat_rewrite cfg h seen_mark fb w1 state)"

text \<open>\<open>case CALI_CT_ESTABLISHED_DNAT\<close> when the conntrack result is that case.\<close>

definition acc_established_dnat ::
    "config \<Rightarrow> helpers \<Rightarrow> u32 \<Rightarrow> bool \<Rightarrow> world \<Rightarrow> cali_tc_state \<Rightarrow> accepted" where
  "acc_established_dnat cfg h seen_mark fb w state =
     (if CALI_F_FROM_HEP cfg \<and> nat_tun_src state \<noteq> 0 \<and> tun_ret_ip (ct_result state) = 0
      then acc_allow cfg TC_ACT_UNSPEC (CALI_SKB_MARK_BYPASS_FWD cfg) fb 0 w state
      else acc_dnat cfg h seen_mark fb zero_ct_ctx w
             (state \<lparr> post_nat_ip_dst := nat_ip (ct_result state),
                      post_nat_dport := nat_port (ct_result state) \<rparr>))"

text \<open>\<open>case CALI_CT_NEW\<close>.\<close>

definition acc_new ::
    "config \<Rightarrow> helpers \<Rightarrow> u32 \<Rightarrow> bool \<Rightarrow> calico_nat_dest option \<Rightarrow> world \<Rightarrow> cali_tc_state
     \<Rightarrow> accepted" where
  "acc_new cfg h seen_mark fb nat_dest_ptr w state =
     (case pol_rc state of
        CALI_POL_NO_MATCH \<Rightarrow> acc_deny CALI_REASON_UNKNOWN w state
      | CALI_POL_DENY \<Rightarrow> acc_deny CALI_REASON_UNKNOWN w state
      | CALI_POL_ALLOW \<Rightarrow>
          if CALI_F_FROM_WEP cfg \<and> CALI_DROP_WORKLOAD_TO_HOST cfg \<and>
             cali_rt_flags_local_host h (cali_rt_lookup_flags h (post_nat_ip_dst state))
          then acc_deny CALI_REASON_UNKNOWN w state
          else
            let ctx0 = zero_ct_ctx \<lparr> ctx_proto := ip_proto state, ctx_src := ip_src state,
                                     ctx_sport := sport state, ctx_dst := post_nat_ip_dst state,
                                     ctx_dport := post_nat_dport state,
                                     ctx_nat_tun_src := nat_tun_src state \<rparr>;
                ctx1 = (if flags state AND CALI_ST_NAT_OUTGOING cfg \<noteq> 0
                        then ctx0 \<lparr> ctx_flags := ctx_flags ctx0 OR CALI_CT_FLAG_NAT_OUT cfg \<rparr>
                        else ctx0)
            in if ip_proto state = IPPROTO_TCP \<and> \<not> skb_has_data_after_tcphdr h (w_skb w)
               then acc_deny CALI_REASON_UNKNOWN w state
               else
                 let ctx2 = (if ip_proto state = IPPROTO_TCP then ctx1 \<lparr> ctx_tcp := True \<rparr>
                             else ctx1)
                 in case nat_dest_ptr of
                      None \<Rightarrow>
                        acc_allow cfg TC_ACT_UNSPEC seen_mark fb 0
                          (emit (EvCtCreate ctx2 False) w) state
                    | Some _ \<Rightarrow>
                        acc_dnat cfg h seen_mark fb
                          (ctx2 \<lparr> ctx_orig_dst := ip_dst state, ctx_orig_dport := dport state \<rparr>)
                          w state)"

text \<open>\<open>case CALI_CT_ESTABLISHED_SNAT\<close>.\<close>

definition acc_established_snat ::
    "config \<Rightarrow> helpers \<Rightarrow> u32 \<Rightarrow> bool \<Rightarrow> world \<Rightarrow> cali_tc_state \<Rightarrow> accepted" where
  "acc_established_snat cfg h seen_mark fb w state =
     (let ret_encap = (dnat_return_should_encap cfg \<and> tun_ret_ip (ct_result state) \<noteq> 0) in
      if ret_encap \<and> CALI_F_DSR cfg then acc_allow cfg TC_ACT_UNSPEC seen_mark fb 0 w state
      else if ret_encap \<and> encap_too_big h (w_skb w) state then acc_icmp_too_big cfg h fb w state
      else
        let l3off = l3_csum_off h (w_skb w);
            l4off = l4_csum_off h (w_skb w) (ip_proto state);
            skb = w_skb w;
            skb1 = skb \<lparr> iph := (iph skb) \<lparr> saddr := nat_ip (ct_result state) \<rparr> \<rparr>;
            skb2 = (if ip_proto state = IPPROTO_TCP \<or> ip_proto state = IPPROTO_UDP
                    then skb1 \<lparr> l4_source := host_to_be16 h (nat_port (ct_result state)) \<rparr>
                    else skb1);
            w1 = w \<lparr> w_skb := skb2 \<rparr>;
            (r, w2) = (if l4off \<noteq> 0
                       then skb_nat_l4_csum_ipv4 h w1 l4off (ip_src state) (nat_ip (ct_result state))
                              (host_to_be16 h (sport state))
                              (host_to_be16 h (nat_port (ct_result state)))
                              (if ip_proto state = IPPROTO_UDP then BPF_F_MARK_MANGLED_0 else 0)
                       else (0, w1));
            (csum_rc, skb3) = bpf_l3_csum_replace h (w_skb w2) l3off (ip_src state)
                                (nat_ip (ct_result state)) 4;
            w3 = emit EvL3CsumReplace (w2 \<lparr> w_skb := skb3 \<rparr>)
        in if (r OR csum_rc) \<noteq> 0 then acc_deny CALI_REASON_CSUM_FAIL w3 state
           else if ret_encap
           then acc_nat_encap cfg h (CALI_SKB_MARK_BYPASS_FWD_SRC_FIXUP cfg) fb w3
                  (state \<lparr> ip_dst := tun_ret_ip (ct_result state) \<rparr>)
           else acc_allow cfg TC_ACT_UNSPEC seen_mark fb 0 w3
                  (state \<lparr> sport := nat_port (ct_result state),
                           ip_src := nat_ip (ct_result state) \<rparr>))"

text \<open>
  The test at the head of the function: the TTL of the packet is exceeded and the flow
  is, or is about to be, NATed.
\<close>

definition ttl_shortcut :: "helpers \<Rightarrow> sk_buff \<Rightarrow> cali_tc_state \<Rightarrow> calico_nat_dest option \<Rightarrow> bool" where
  "ttl_shortcut h skb state nat_dest_ptr =
     (ip_ttl_exceeded h (iph skb) \<and>
      (case rc (ct_result state) of
         CALI_CT_NEW \<Rightarrow> nat_dest_ptr \<noteq> None
       | CALI_CT_ESTABLISHED_DNAT \<Rightarrow> True
       | CALI_CT_ESTABLISHED_SNAT \<Rightarrow> True
       | _ \<Rightarrow> False))"

definition calico_tc_skb_accepted ::
    "config \<Rightarrow> helpers \<Rightarrow> world \<Rightarrow> cali_tc_state \<Rightarrow> calico_nat_dest option \<Rightarrow> accepted" where
  "calico_tc_skb_accepted cfg h w0 state nat_dest_ptr =
     (let w = emit (EvSkbAccepted state) w0;
          nat_out = (CALI_F_FROM_WEP cfg \<and> flags state AND CALI_ST_NAT_OUTGOING cfg \<noteq> 0);
          fb = (\<not> nat_out);
          seen_mark = (if nat_out then CALI_SKB_MARK_NAT_OUT cfg else CALI_SKB_MARK_SEEN cfg)
      in if ttl_shortcut h (w_skb w) state nat_dest_ptr
         then acc_icmp_ttl_exceeded cfg h seen_mark fb w state
         else
           case rc (ct_result state) of
             CALI_CT_NEW \<Rightarrow> acc_new cfg h seen_mark fb nat_dest_ptr w state
           | CALI_CT_ESTABLISHED_DNAT \<Rightarrow> acc_established_dnat cfg h seen_mark fb w state
           | CALI_CT_ESTABLISHED_SNAT \<Rightarrow> acc_established_snat cfg h seen_mark fb w state
           | CALI_CT_ESTABLISHED_BYPASS \<Rightarrow>
               acc_allow cfg TC_ACT_UNSPEC (CALI_SKB_MARK_BYPASS cfg) fb 0 w state
           | CALI_CT_ESTABLISHED \<Rightarrow> acc_allow cfg TC_ACT_UNSPEC seen_mark fb 0 w state
           | CALI_CT_INVALID \<Rightarrow>
               if CALI_F_FROM_HEP cfg then acc_allow cfg TC_ACT_UNSPEC seen_mark False 0 w state
               else acc_deny CALI_REASON_UNKNOWN w state)"



subsection \<open>The post-policy program and the policy program\<close>

text \<open>
  \<open>calico_tc_skb_accepted_entrypoint\<close>, section \<open>1/1\<close>, the program of slot 1 of the jump
  table. Its state is the slot of the state map, so what the accepted path writes to the
  state is written to the map; the model records it as one write when the path returns.
\<close>

definition calico_tc_skb_accepted_entrypoint :: "config \<Rightarrow> helpers \<Rightarrow> world \<Rightarrow> result" where
  "calico_tc_skb_accepted_entrypoint cfg h w =
     (if skb_too_short h (w_skb w)
      then \<lparr> verdict = TC_ACT_SHOT, drop_reason = None, final = w \<rparr>
      else
        case cali_v4_state w of
          None \<Rightarrow> \<lparr> verdict = TC_ACT_SHOT, drop_reason = None, final = w \<rparr>
        | Some state \<Rightarrow>
            let nat_dest_ptr = (if nd_addr (nat_dest state) \<noteq> 0 then Some (nat_dest state)
                                else None);
                (f, w1, state') = calico_tc_skb_accepted cfg h w state nat_dest_ptr;
                w2 = (if state' = state then w1
                      else emit (EvStateWrite state') (w1 \<lparr> cali_v4_state := Some state' \<rparr>))
            in forward_or_drop cfg h w2 state' f)"

text \<open>\<open>calico_tc_norm_pol_tail\<close>, section \<open>1/0\<close>, the program of slot 0 of the jump table.\<close>

definition calico_tc_norm_pol_tail :: "config \<Rightarrow> helpers \<Rightarrow> world \<Rightarrow> result" where
  "calico_tc_norm_pol_tail cfg h w =
     (case cali_v4_state w of
        None \<Rightarrow> \<lparr> verdict = TC_ACT_SHOT, drop_reason = None, final = w \<rparr>
      | Some state \<Rightarrow>
          let state' = state \<lparr> pol_rc := execute_policy_norm cfg h (ip_proto state) (ip_src state)
                                           (ip_dst state) (sport state) (dport state) \<rparr>;
              w1 = emit (EvStateWrite state') (w \<lparr> cali_v4_state := Some state' \<rparr>)
          in if cali_jump h 1
             then calico_tc_skb_accepted_entrypoint cfg h (emit (EvTailCall 1) w1)
             else \<lparr> verdict = TC_ACT_SHOT, drop_reason = None, final = w1 \<rparr>)"

subsection \<open>\<open>calico_tc\<close>, the entry program\<close>

text \<open>
  The labels \<open>allow\<close> and \<open>finalize\<close> call \<open>forward_or_drop\<close>; the label \<open>deny\<close> sets the
  result of \<open>struct fwd\<close> to \<open>TC_ACT_SHOT\<close> first.
\<close>

definition tc_allow :: "config \<Rightarrow> helpers \<Rightarrow> world \<Rightarrow> cali_tc_state \<Rightarrow> fwd \<Rightarrow> result" where
  "tc_allow cfg h w state f = forward_or_drop cfg h w state f"

definition tc_deny :: "config \<Rightarrow> helpers \<Rightarrow> world \<Rightarrow> cali_tc_state \<Rightarrow> fwd \<Rightarrow> result" where
  "tc_deny cfg h w state f = forward_or_drop cfg h w state (f \<lparr> res := TC_ACT_SHOT \<rparr>)"

text \<open>
  The first part of \<open>calico_tc\<close>, up to the conntrack lookup, is the classifier of
  section 4.A: it ends the program with a direct verdict, or it has classified the
  packet and hands the frame, the state it has filled in, the \<open>struct fwd\<close> and the
  context of the conntrack lookup to the rest of the program.
\<close>

datatype classified = Direct result | Classified world cali_tc_state fwd ct_ctx

text \<open>\<open>case CALI_SKB_MARK_BYPASS_FWD_SRC_FIXUP\<close>.\<close>

definition tc_src_fixup :: "config \<Rightarrow> helpers \<Rightarrow> world \<Rightarrow> cali_tc_state \<Rightarrow> fwd \<Rightarrow> result" where
  "tc_src_fixup cfg h w state f0 =
     (let f = f0 \<lparr> reason := CALI_REASON_BYPASS \<rparr> in
      if skb_too_short h (w_skb w) then tc_deny cfg h w state (f \<lparr> reason := CALI_REASON_SHORT \<rparr>)
      else
        let skb = w_skb w;
            src = saddr (iph skb)
        in if src = cali_host_ip cfg then tc_allow cfg h w state f
           else
             let skb1 = skb \<lparr> iph := (iph skb) \<lparr> saddr := cali_host_ip cfg \<rparr> \<rparr>;
                 off = skb_iphdr_offset h skb1 + offsetof_iphdr_check;
                 (r, skb2) = bpf_l3_csum_replace h skb1 off src (cali_host_ip cfg) 4;
                 w1 = emit EvL3CsumReplace (w \<lparr> w_skb := skb2 \<rparr>)
             in if r \<noteq> 0 then tc_deny cfg h w1 state (f \<lparr> reason := CALI_REASON_CSUM_FAIL \<rparr>)
                else tc_allow cfg h w1 state f)"

text \<open>
  From the second \<open>switch\<close> on the protocol to the conntrack lookup: protocols without
  ports, the context of the lookup, and the second check of the TCP header.
\<close>

definition tc_ct_ctx :: "config \<Rightarrow> helpers \<Rightarrow> world \<Rightarrow> cali_tc_state \<Rightarrow> fwd \<Rightarrow> classified" where
  "tc_ct_ctx cfg h w state f =
     (if ip_proto state \<noteq> IPPROTO_TCP \<and> ip_proto state \<noteq> IPPROTO_UDP \<and>
         ip_proto state \<noteq> IPPROTO_ICMP
      then (if CALI_F_HEP cfg then Direct (tc_allow cfg h w state f)
            else Direct (tc_deny cfg h w state f))
      else
        let ct_lookup_ctx = zero_ct_ctx \<lparr> ctx_proto := ip_proto state, ctx_src := ip_src state,
                                          ctx_sport := sport state, ctx_dst := ip_dst state,
                                          ctx_dport := dport state,
                                          ctx_nat_tun_src := nat_tun_src state \<rparr>
        in if ip_proto state = IPPROTO_TCP
           then (if \<not> skb_has_data_after_tcphdr h (w_skb w) then Direct (tc_deny cfg h w state f)
                 else Classified w state f (ct_lookup_ctx \<lparr> ctx_tcp := True \<rparr>))
           else Classified w state f ct_lookup_ctx)"

text \<open>The first \<open>switch\<close> on the protocol: the ports, and IPIP on a host endpoint.\<close>

definition tc_l4 :: "config \<Rightarrow> helpers \<Rightarrow> world \<Rightarrow> cali_tc_state \<Rightarrow> fwd \<Rightarrow> classified" where
  "tc_l4 cfg h w state0 f =
     (let skb = w_skb w;
          ip_header = iph skb;
          state = state0 \<lparr> ip_proto := ip_protocol ip_header \<rparr>;
          addrs = (\<lambda>st. st \<lparr> ip_src := saddr ip_header, ip_dst := daddr ip_header,
                            pol_rc := CALI_POL_NO_MATCH \<rparr>)
      in if ip_proto state = IPPROTO_TCP then
           (if \<not> skb_has_data_after_tcphdr h skb then Direct (tc_deny cfg h w state f)
            else tc_ct_ctx cfg h w
                   (addrs (state \<lparr> sport := be16_to_host h (l4_source skb),
                                   dport := be16_to_host h (l4_dest skb) \<rparr>)) f)
         else if ip_proto state = IPPROTO_UDP then
           tc_ct_ctx cfg h w
             (addrs (state \<lparr> sport := be16_to_host h (l4_source skb),
                             dport := be16_to_host h (l4_dest skb) \<rparr>)) f
         else if ip_proto state = IPPROTO_ICMP then tc_ct_ctx cfg h w (addrs state) f
         else if ip_proto state = IPPROTO_IPIP \<and> CALI_F_HEP cfg then
           Direct (tc_allow cfg h w state (fwd_fib_set cfg f False))
         else tc_ct_ctx cfg h w (addrs state) f)"

text \<open>Parsing: the \<open>switch\<close> on the ethertype, the length check and the VXLAN decapsulation.\<close>

definition tc_parse :: "config \<Rightarrow> helpers \<Rightarrow> world \<Rightarrow> cali_tc_state \<Rightarrow> fwd \<Rightarrow> classified" where
  "tc_parse cfg h w state f =
     (let ethertype = host_to_be16 h (protocol (w_skb w)) in
      if ethertype = ETH_P_ARP then Direct (tc_allow cfg h w state (fwd_fib_set cfg f False))
      else if ethertype = ETH_P_IPV6 then
        (if CALI_F_WEP cfg then Direct \<lparr> verdict = TC_ACT_SHOT, drop_reason = None, final = w \<rparr>
         else Direct \<lparr> verdict = TC_ACT_UNSPEC, drop_reason = None, final = w \<rparr>)
      else if ethertype \<noteq> ETH_P_IP then
        (if CALI_F_WEP cfg then Direct (tc_deny cfg h w state f)
         else Direct \<lparr> verdict = TC_ACT_UNSPEC, drop_reason = None, final = w \<rparr>)
      else if skb_too_short h (w_skb w)
      then Direct (tc_deny cfg h w state (f \<lparr> reason := CALI_REASON_SHORT \<rparr>))
      else if is_vxlan_tunnel h (w_skb w) \<and> dnat_should_decap cfg \<and>
              daddr (iph (w_skb w)) = cali_host_ip cfg
      then
        (let state1 = state \<lparr> nat_tun_src := saddr (iph (w_skb w)) \<rparr>;
             (r, skb') = vxlan_v4_decap h (w_skb w);
             w1 = emit EvVxlanDecap (w \<lparr> w_skb := skb' \<rparr>)
         in if r \<noteq> 0
            then Direct (tc_deny cfg h w1 state1 (f \<lparr> reason := CALI_REASON_DECAP_FAIL \<rparr>))
            else if skb_too_short h (w_skb w1)
            then Direct (tc_deny cfg h w1 state1 (f \<lparr> reason := CALI_REASON_SHORT \<rparr>))
            else tc_l4 cfg h w1 state1 f)
      else tc_l4 cfg h w state f)"

text \<open>
  The head of \<open>calico_tc\<close>: the test mark override of a build with \<open>CALI_SET_SKB_MARK\<close>,
  the bypass mark, and on the hooks towards an endpoint the two forward marks.
\<close>

definition tc_classify :: "config \<Rightarrow> helpers \<Rightarrow> sk_buff \<Rightarrow> cali_tc_state option \<Rightarrow> classified" where
  "tc_classify cfg h skb0 state_slot =
     (let state = zero_state;
          f = fwd_fib_set cfg
                \<lparr> res = TC_ACT_UNSPEC, fwd_mark = 0, reason = CALI_REASON_UNKNOWN, fib_flags = 0,
                  fib = False \<rparr> True;
          skb = (case CALI_SET_SKB_MARK cfg of None \<Rightarrow> skb0 | Some m \<Rightarrow> skb0 \<lparr> mark := m \<rparr>);
          w = \<lparr> w_skb = skb, cali_v4_state = state_slot, trace = [] \<rparr>
      in if \<not> CALI_F_TO_HOST cfg \<and> mark skb = CALI_SKB_MARK_BYPASS cfg
         then Direct (tc_allow cfg h w state (f \<lparr> reason := CALI_REASON_BYPASS \<rparr>))
         else if (CALI_F_TO_HEP cfg \<or> CALI_F_TO_WEP cfg) \<and>
                 mark skb = CALI_SKB_MARK_BYPASS_FWD cfg
         then Direct (tc_allow cfg h w state (f \<lparr> reason := CALI_REASON_BYPASS \<rparr>))
         else if (CALI_F_TO_HEP cfg \<or> CALI_F_TO_WEP cfg) \<and>
                 mark skb = CALI_SKB_MARK_BYPASS_FWD_SRC_FIXUP cfg
         then Direct (tc_src_fixup cfg h w state f)
         else tc_parse cfg h w state f)"

text \<open>The label \<open>skip_policy\<close>.\<close>

definition tc_skip_policy ::
    "config \<Rightarrow> helpers \<Rightarrow> world \<Rightarrow> cali_tc_state \<Rightarrow> calico_nat_dest option \<Rightarrow> result" where
  "tc_skip_policy cfg h w state nat_dest_ptr =
     (let (f, w', state') = calico_tc_skb_accepted cfg h w state nat_dest_ptr
      in forward_or_drop cfg h w' state' f)"

text \<open>
  The hand-over to the policy program: the state is copied into the state map; a host
  endpoint has no policy and jumps to the post-policy program with the verdict allow.
\<close>

definition tc_policy_jump ::
    "config \<Rightarrow> helpers \<Rightarrow> world \<Rightarrow> cali_tc_state \<Rightarrow> fwd \<Rightarrow> calico_nat_dest option \<Rightarrow> result" where
  "tc_policy_jump cfg h w state0 f nat_dest_ptr =
     (case cali_v4_state w of
        None \<Rightarrow> tc_deny cfg h w state0 f
      | Some _ \<Rightarrow>
          let state = state0 \<lparr> pol_rc := CALI_POL_NO_MATCH,
                               nat_dest := (case nat_dest_ptr of
                                              Some d \<Rightarrow> \<lparr> nd_addr = nd_addr d, nd_port = nd_port d \<rparr>
                                            | None \<Rightarrow> \<lparr> nd_addr = 0, nd_port = 0 \<rparr>) \<rparr>;
              w1 = emit (EvStateWrite state) (w \<lparr> cali_v4_state := Some state \<rparr>)
          in if CALI_F_HEP cfg then
               (let st_allow = state \<lparr> pol_rc := CALI_POL_ALLOW \<rparr>;
                    w2 = emit (EvStateWrite st_allow) (w1 \<lparr> cali_v4_state := Some st_allow \<rparr>)
                in if cali_jump h 1
                   then calico_tc_skb_accepted_entrypoint cfg h (emit (EvTailCall 1) w2)
                   else \<lparr> verdict = TC_ACT_UNSPEC, drop_reason = None, final = w2 \<rparr>)
             else if cali_jump h 0 then calico_tc_norm_pol_tail cfg h (emit (EvTailCall 0) w1)
             else \<lparr> verdict = TC_ACT_SHOT, drop_reason = None, final = w1 \<rparr>)"

text \<open>
  The workload reverse-path check of a from-workload hook: the route of the source must
  exist, be a local workload and have the interface of the frame.
\<close>

definition rpf_ok :: "helpers \<Rightarrow> be32 \<Rightarrow> sk_buff \<Rightarrow> bool" where
  "rpf_ok h src skb =
     (case cali_rt_lookup h src of
        None \<Rightarrow> False
      | Some r \<Rightarrow> cali_rt_flags_local_workload h (rt_flags r) \<and> if_index r = ifindex skb)"

text \<open>A new flow: the NAT lookup, host-to-workload traffic, the RPF check.\<close>

definition tc_new_flow :: "config \<Rightarrow> helpers \<Rightarrow> world \<Rightarrow> cali_tc_state \<Rightarrow> fwd \<Rightarrow> result" where
  "tc_new_flow cfg h w0 state0 f =
     (let nat_dest_ptr = calico_v4_nat_lookup2 h (ip_src state0) (ip_dst state0) (ip_proto state0)
                           (dport state0) (nat_tun_src state0 \<noteq> 0);
          w = emit (EvNatLookup (ip_src state0) (ip_dst state0) (ip_proto state0) (dport state0)
                      (nat_tun_src state0 \<noteq> 0)) w0;
          state = (case nat_dest_ptr of
                     Some d \<Rightarrow> state0 \<lparr> post_nat_ip_dst := nd_addr d, post_nat_dport := nd_port d \<rparr>
                   | None \<Rightarrow> state0 \<lparr> post_nat_ip_dst := ip_dst state0,
                                      post_nat_dport := dport state0 \<rparr>)
      in if CALI_F_TO_WEP cfg \<and> mark (w_skb w) \<noteq> CALI_SKB_MARK_SEEN cfg \<and>
            cali_rt_flags_local_host h (cali_rt_lookup_flags h (ip_src state))
         then tc_skip_policy cfg h w (state \<lparr> pol_rc := CALI_POL_ALLOW \<rparr>) nat_dest_ptr
         else if CALI_F_FROM_WEP cfg then
           (case cali_rt_lookup h (ip_src state) of
              None \<Rightarrow> tc_deny cfg h w state f
            | Some r \<Rightarrow>
                if \<not> cali_rt_flags_local_workload h (rt_flags r) then tc_deny cfg h w state f
                else if if_index r \<noteq> ifindex (w_skb w) then tc_deny cfg h w state f
                else if rt_flags r AND CALI_RT_NAT_OUT cfg \<noteq> 0 \<and>
                        cali_rt_lookup_flags h (post_nat_ip_dst state) AND CALI_RT_IN_POOL cfg = 0
                then tc_policy_jump cfg h w
                       (state \<lparr> flags := flags state OR CALI_ST_NAT_OUTGOING cfg \<rparr>) f nat_dest_ptr
                else tc_policy_jump cfg h w state f nat_dest_ptr)
         else tc_policy_jump cfg h w state f nat_dest_ptr)"

text \<open>The conntrack lookup and what follows it.\<close>

definition tc_conntrack ::
    "config \<Rightarrow> helpers \<Rightarrow> world \<Rightarrow> cali_tc_state \<Rightarrow> fwd \<Rightarrow> ct_ctx \<Rightarrow> result" where
  "tc_conntrack cfg h w0 state0 f ct_lookup_ctx =
     (let r = calico_ct_v4_lookup h (w_skb w0) ct_lookup_ctx;
          w = emit (EvCtLookup ct_lookup_ctx r) w0;
          state1 = state0 \<lparr> ct_result := r \<rparr>;
          state = (if ct_flags r AND CALI_CT_FLAG_NAT_OUT cfg \<noteq> 0
                   then state1 \<lparr> flags := flags state1 OR CALI_ST_NAT_OUTGOING cfg \<rparr>
                   else state1)
      in if rc r \<noteq> CALI_CT_NEW then tc_skip_policy cfg h w state None
         else tc_new_flow cfg h w state f)"

definition calico_tc :: "config \<Rightarrow> helpers \<Rightarrow> sk_buff \<Rightarrow> cali_tc_state option \<Rightarrow> result" where
  "calico_tc cfg h skb state_slot =
     (case tc_classify cfg h skb state_slot of
        Direct r \<Rightarrow> r
      | Classified w state f ct_lookup_ctx \<Rightarrow> tc_conntrack cfg h w state f ct_lookup_ctx)"

subsection \<open>Growth of the trace\<close>

text \<open>
  \<open>grows w w'\<close>: the trace of \<open>w'\<close> is the trace of \<open>w\<close> followed by events none of
  which is a tail call.
\<close>

definition grows :: "world \<Rightarrow> world \<Rightarrow> bool" where
  "grows w w' = (\<exists>evs. trace w' = trace w @ evs \<and> (\<forall>n. EvTailCall n \<notin> set evs))"

subsection \<open>An example build and example frames\<close>

text \<open>
  Example values for what the absent headers define: the marks, the flag bits, a host
  10.0.0.1 with MTU 1400, and helpers that do what their names say on the modelled
  fields of the frame; the byte-order conversions are the identity, as on a big-endian
  host. The route table knows the local workload 10.0.0.5 on interface
  7, the host itself and the remote workload 10.0.1.9 behind node 10.0.1.1; the NAT table
  maps the service 10.96.0.1:80, over TCP and over UDP, to that remote workload; the
  conntrack table is empty.
\<close>

definition ex_config :: "hook \<Rightarrow> config" where
  "ex_config hk =
     \<lparr> hook = hk, CALI_F_L3 = False, CALI_F_DSR = False,
       CALI_F_INGRESS = (hk = ToWorkload \<or> hk = FromHEP),
       CALI_FIB_LOOKUP_ENABLED = True, CALI_DROP_WORKLOAD_TO_HOST = False,
       CALI_DEBUG_ALLOW_ALL = False, CALI_SET_SKB_MARK = None,
       CALI_SKB_MARK_BYPASS = 0xCA110000, CALI_SKB_MARK_BYPASS_FWD = 0xCA130000,
       CALI_SKB_MARK_BYPASS_FWD_SRC_FIXUP = 0xCA150000, CALI_SKB_MARK_SEEN = 0xCA100000,
       CALI_SKB_MARK_NAT_OUT = 0xCA180000, CALI_RES_REDIR_IFINDEX = 108,
       CALI_CT_FLAG_NAT_OUT = 1, CALI_CT_FLAG_DSR_FWD = 2, CALI_ST_NAT_OUTGOING = 1,
       CALI_RT_NAT_OUT = 16, CALI_RT_IN_POOL = 8, CALI_VXLAN_PORT = 4789,
       ETH_IPV4_UDP_SIZE = 42, cali_host_ip = 0x0A000001,
       dnat_should_decap = (hk = FromHEP), dnat_should_encap = (hk = FromHEP),
       dnat_return_should_encap = (hk = FromWorkload) \<rparr>"

definition ex_rt_lookup :: "be32 \<Rightarrow> cali_rt option" where
  "ex_rt_lookup a =
     (if a = 0x0A000005 then Some \<lparr> rt_flags = 3, if_index = 7, next_hop = 0 \<rparr>
      else if a = 0x0A000001 then Some \<lparr> rt_flags = 5, if_index = 0, next_hop = 0 \<rparr>
      else if a = 0x0A000109 then Some \<lparr> rt_flags = 2, if_index = 0, next_hop = 0x0A000101 \<rparr>
      else None)"

definition ex_icmp_reply :: "sk_buff \<Rightarrow> sk_buff" where
  "ex_icmp_reply skb =
     skb \<lparr> iph := (iph skb) \<lparr> ttl := 64, ip_protocol := 1, frag_off := 0,
                              saddr := 0x0A000001, daddr := saddr (iph skb) \<rparr>,
           l4_source := 0, l4_dest := 0, data_end := data skb + 70 \<rparr>"

definition ex_helpers :: "hook \<Rightarrow> helpers" where
  "ex_helpers hk =
     \<lparr> host_to_be16 = (\<lambda>x. x), be16_to_host = (\<lambda>x. x),
       skb_too_short = (\<lambda>skb. data_end skb < data skb + 34),
       skb_has_data_after_tcphdr = (\<lambda>skb. data skb + 54 \<le> data_end skb),
       skb_shorter = (\<lambda>skb n. data_end skb < data skb + n),
       skb_is_gso = (\<lambda>skb. False),
       skb_iphdr_offset = (\<lambda>skb. 14),
       skb_l4hdr_offset = (\<lambda>skb l. 14 + unat l),
       is_vxlan_tunnel = (\<lambda>skb. ip_protocol (iph skb) = 17 \<and> l4_dest skb = 4789),
       ip_is_dnf = (\<lambda>ip. frag_off ip AND 0x4000 \<noteq> 0),
       ip_frag_no = (\<lambda>ip. frag_off ip AND 0x1FFF \<noteq> 0),
       ip_ttl_exceeded = (\<lambda>ip. (hk = FromWorkload \<or> hk = FromHEP) \<and> unat (ttl ip) \<le> 1),
       ip_dec_ttl = (\<lambda>skb. skb \<lparr> iph := (iph skb) \<lparr> ttl := ttl (iph skb) - 1 \<rparr> \<rparr>),
       vxlan_v4_encap_too_big = (\<lambda>skb. unat (tot_len (iph skb)) + 50 > 1400),
       vxlan_v4_decap = (\<lambda>skb. (0, skb \<lparr> data := data skb + 50 \<rparr>)),
       vxlan_v4_encap = (\<lambda>skb s d. (0, skb \<lparr> data_end := data_end skb + 50 \<rparr>)),
       icmp_v4_too_big = (\<lambda>skb. (0, ex_icmp_reply skb)),
       icmp_v4_ttl_exceeded = (\<lambda>skb. (0, ex_icmp_reply skb)),
       bpf_l3_csum_replace = (\<lambda>skb off a b fl. (0, skb)),
       bpf_l4_csum_replace = (\<lambda>skb off a b fl. (0, skb)),
       bpf_redirect = (\<lambda>ifi fl. TC_ACT_REDIRECT),
       bpf_fib_lookup_helper = (\<lambda>skb p fl. (1, p)),
       calico_ct_v4_lookup =
         (\<lambda>skb ctx. \<lparr> rc = CALI_CT_NEW, ct_flags = 0, nat_ip = 0, nat_port = 0, tun_ret_ip = 0 \<rparr>),
       calico_v4_nat_lookup2 =
         (\<lambda>s d p dp tun. if d = 0x0A600001 \<and> dp = 80 \<and> (p = 6 \<or> p = 17)
                          then Some \<lparr> nd_addr = 0x0A000109, nd_port = 8080 \<rparr> else None),
       cali_rt_lookup = ex_rt_lookup,
       cali_rt_lookup_flags = (\<lambda>a. case ex_rt_lookup a of None \<Rightarrow> 0 | Some r \<Rightarrow> rt_flags r),
       cali_rt_flags_local_host = (\<lambda>fl. fl AND 5 = 5),
       cali_rt_flags_local_workload = (\<lambda>fl. fl AND 3 = 3),
       cali_rt_is_local = (\<lambda>r. rt_flags r AND 1 \<noteq> 0),
       cali_rt_is_workload = (\<lambda>r. rt_flags r AND 2 \<noteq> 0),
       cali_jump = (\<lambda>n. n < 2),
       rule_matched = (\<lambda>n p s d sp dp. True) \<rparr>"

text \<open>
  A TCP segment of 60 bytes from the workload 10.0.0.5:40000 to the service 10.96.0.1:80,
  on interface 7, with DF set.
\<close>

definition ex_skb :: sk_buff where
  "ex_skb =
     \<lparr> mark = 0, ifindex = 7, ingress_ifindex = 7, protocol = 0x0800, data = 0, data_end = 74,
       h_dest = 0x0000EEEEEEEE, h_source = 0x0000AAAAAAAA,
       iph = \<lparr> ihl = 5, ttl = 64, ip_protocol = 6, tot_len = 60, frag_off = 0x4000,
               saddr = 0x0A000005, daddr = 0x0A600001 \<rparr>,
       l4_source = 40000, l4_dest = 80, payload = [] \<rparr>"

text \<open>The same segment with a spoofed source address that has no route.\<close>

definition ex_skb_spoofed :: sk_buff where
  "ex_skb_spoofed = ex_skb \<lparr> iph := (iph ex_skb) \<lparr> saddr := 0x0A000063 \<rparr> \<rparr>"

text \<open>A segment from the host 10.0.0.1 to the workload, leaving on the workload's interface.\<close>

definition ex_skb_from_host :: sk_buff where
  "ex_skb_from_host =
     ex_skb \<lparr> iph := (iph ex_skb) \<lparr> saddr := 0x0A000001, daddr := 0x0A000005 \<rparr> \<rparr>"

text \<open>A frame that another hook approved: it carries the bypass mark.\<close>

definition ex_skb_bypass :: sk_buff where
  "ex_skb_bypass = ex_skb \<lparr> mark := 0xCA110000 \<rparr>"

text \<open>
  A segment from an outside client 192.0.2.7 to the service, arriving on the host's
  interface 2 with 1400 bytes and DF set.
\<close>

definition ex_skb_ext_big :: sk_buff where
  "ex_skb_ext_big =
     ex_skb \<lparr> ifindex := 2, ingress_ifindex := 2, data_end := 1414,
              iph := (iph ex_skb) \<lparr> tot_len := 1400, saddr := 0xC0000207 \<rparr> \<rparr>"

text \<open>
  A reply of 1400 bytes with DF set that the workload 10.0.0.5 sends back through the
  tunnel of a flow that entered at node 10.0.1.1.
\<close>

definition ex_skb_reply_big :: sk_buff where
  "ex_skb_reply_big =
     ex_skb \<lparr> data_end := 1414,
              iph := (iph ex_skb) \<lparr> tot_len := 1400, daddr := 0xC0000207 \<rparr>,
              l4_source := 8080, l4_dest := 40000 \<rparr>"

definition ex_state_reply :: cali_tc_state where
  "ex_state_reply =
     zero_state \<lparr> ip_src := 0x0A000005, ip_dst := 0xC0000207, sport := 8080, dport := 40000,
                  ip_proto := 6,
                  ct_result := \<lparr> rc = CALI_CT_ESTABLISHED_SNAT, ct_flags = 0,
                                 nat_ip = 0x0A600001, nat_port = 80, tun_ret_ip = 0x0A000101 \<rparr> \<rparr>"

text \<open>The helpers of the example when the ICMP message cannot be built.\<close>

definition ex_helpers_no_icmp :: "hook \<Rightarrow> helpers" where
  "ex_helpers_no_icmp hk = (ex_helpers hk) \<lparr> icmp_v4_too_big := (\<lambda>skb. (- 1, skb)) \<rparr>"

text \<open>The segment of the workload at its last hop.\<close>

definition ex_skb_ttl1 :: sk_buff where
  "ex_skb_ttl1 = ex_skb \<lparr> iph := (iph ex_skb) \<lparr> ttl := 1 \<rparr> \<rparr>"

text \<open>
  The state the entry program leaves in the state map for the segment of the workload: a
  new flow to the service, with the NAT destination chosen; and the state of the flow of
  the outside client once it is allowed.
\<close>

definition ex_state :: cali_tc_state where
  "ex_state =
     zero_state \<lparr> ip_src := 0x0A000005, ip_dst := 0x0A600001, post_nat_ip_dst := 0x0A000109,
                  sport := 40000, dport := 80, post_nat_dport := 8080, ip_proto := 6,
                  nat_dest := \<lparr> nd_addr = 0x0A000109, nd_port = 8080 \<rparr> \<rparr>"

definition ex_state_ext :: cali_tc_state where
  "ex_state_ext = ex_state \<lparr> ip_src := 0xC0000207, pol_rc := CALI_POL_ALLOW \<rparr>"

text \<open>
  A UDP datagram of 1400 bytes with DF set from the outside client to the service, of
  which only the first 40 bytes are in the linear part of the frame; the state of its
  flow once it is allowed; and the state of a later segment of the TCP flow of the outside
  client, when conntrack knows the flow and its backend.
\<close>

definition ex_skb_udp_nonlinear :: sk_buff where
  "ex_skb_udp_nonlinear =
     ex_skb_ext_big \<lparr> data_end := 40, iph := (iph ex_skb_ext_big) \<lparr> ip_protocol := 17 \<rparr> \<rparr>"

definition ex_state_udp :: cali_tc_state where
  "ex_state_udp = ex_state_ext \<lparr> ip_proto := 17 \<rparr>"

definition ex_state_dnat :: cali_tc_state where
  "ex_state_dnat =
     zero_state \<lparr> ip_src := 0xC0000207, ip_dst := 0x0A600001, sport := 40000, dport := 80,
                  ip_proto := 6,
                  ct_result := \<lparr> rc = CALI_CT_ESTABLISHED_DNAT, ct_flags = 0,
                                 nat_ip = 0x0A000109, nat_port = 8080, tun_ret_ip = 0 \<rparr> \<rparr>"

definition ex_world :: "sk_buff \<Rightarrow> cali_tc_state \<Rightarrow> world" where
  "ex_world skb st = \<lparr> w_skb = skb, cali_v4_state = Some st, trace = [] \<rparr>"

section \<open>Properties of the scanners\<close>

subsection \<open>Expiry rules\<close>

text \<open>
  C5. An entry whose \<open>now - created\<close> (Go's \<open>int64\<close> subtraction) is below the creation
  grace period is reported as not expired, whatever its protocol, TCP state bits and
  last-seen timestamp.
\<close>

theorem EntryExpired_grace_period:
  "sint (nowNanos - Created entry) < sint (CreationGracePeriod (timeouts l))
   \<Longrightarrow> EntryExpired l nowNanos proto entry = ('''', False)"
  by (simp add: EntryExpired_def)

lemmas ex_value_defs =
  ex_scanner_def NewLivenessScanner_def DefaultTimeouts_def Second_def Hour_def
  ex_rev_rst_def ex_rev_live_def ex_rev_fins_def ex_rev_syn_def ex_young_def ex_no_flags_def
  ex_fwd_def ex_udp_def

lemmas ex_key_defs = ex_fwd_key_def ex_rev_key_def ex_udp_key_def ex_mid_key_def ex_zero_key_def


theorem EntryExpired_grace_period_witness:
  "sint (NowNanos ex_scanner - Created ex_young) < sint (CreationGracePeriod (timeouts ex_scanner))
   \<and> EntryExpired ex_scanner (NowNanos ex_scanner) ProtoTCP ex_young = ('''', False)"
proof -
  have h: "sint (NowNanos ex_scanner - Created ex_young) < sint (CreationGracePeriod (timeouts ex_scanner))"
    by (simp add: ex_scanner_def ex_young_def ex_rev_rst_def NewLivenessScanner_def
        DefaultTimeouts_def Second_def)
  from EntryExpired_grace_period[OF h] h show ?thesis by simp
qed

text \<open>
  C4. Past the creation grace period, with \<open>age = now - last_seen\<close>, a TCP entry is
  judged by the first rule that applies: reset seen and \<open>age > TCPResetSeen\<close> gives
  "RST seen"; otherwise both FINs seen (one FIN on a DSR-forward entry) and
  \<open>age > TCPFinsSeen\<close> gives "FINs seen"; otherwise an established or DSR-forward entry
  expires exactly when \<open>age > TCPEstablished\<close>; otherwise the entry expires exactly when
  \<open>age > TCPPreEstablished\<close>.
\<close>

theorem EntryExpired_tcp_rules:
  assumes "\<not> sint (nowNanos - Created entry) < sint (CreationGracePeriod (timeouts l))"
  shows "(rst_rule (timeouts l) (nowNanos - LastSeen entry) entry \<longrightarrow>
            EntryExpired l nowNanos ProtoTCP entry = (''RST seen'', True))
       \<and> (\<not> rst_rule (timeouts l) (nowNanos - LastSeen entry) entry \<and>
          fins_rule (timeouts l) (nowNanos - LastSeen entry) entry \<longrightarrow>
            EntryExpired l nowNanos ProtoTCP entry = (''FINs seen'', True))
       \<and> (\<not> rst_rule (timeouts l) (nowNanos - LastSeen entry) entry \<and>
          \<not> fins_rule (timeouts l) (nowNanos - LastSeen entry) entry \<and>
          established_or_dsr entry \<longrightarrow>
            snd (EntryExpired l nowNanos ProtoTCP entry) =
              (sint (nowNanos - LastSeen entry) > sint (TCPEstablished (timeouts l))))
       \<and> (\<not> rst_rule (timeouts l) (nowNanos - LastSeen entry) entry \<and>
          \<not> fins_rule (timeouts l) (nowNanos - LastSeen entry) entry \<and>
          \<not> established_or_dsr entry \<longrightarrow>
            snd (EntryExpired l nowNanos ProtoTCP entry) =
              (sint (nowNanos - LastSeen entry) > sint (TCPPreEstablished (timeouts l))))"
  using assms
  by (auto simp: EntryExpired_def rst_rule_def fins_rule_def established_or_dsr_def
      RSTSeen_def FINsSeen_def FINsSeenDSR_def Established_def Let_def)

theorem EntryExpired_tcp_rules_witness:
  "EntryExpired ex_scanner (NowNanos ex_scanner) ProtoTCP ex_rev_rst = (''RST seen'', True)
   \<and> EntryExpired ex_scanner (NowNanos ex_scanner) ProtoTCP ex_rev_fins = (''FINs seen'', True)
   \<and> snd (EntryExpired ex_scanner (NowNanos ex_scanner) ProtoTCP ex_rev_live) = False
   \<and> snd (EntryExpired ex_scanner (NowNanos ex_scanner) ProtoTCP ex_rev_syn) = True"
proof -
  let ?l = ex_scanner and ?n = "NowNanos ex_scanner"
  have g: "\<not> sint (?n - Created ex_rev_rst) < sint (CreationGracePeriod (timeouts ?l))"
          "\<not> sint (?n - Created ex_rev_fins) < sint (CreationGracePeriod (timeouts ?l))"
          "\<not> sint (?n - Created ex_rev_live) < sint (CreationGracePeriod (timeouts ?l))"
          "\<not> sint (?n - Created ex_rev_syn) < sint (CreationGracePeriod (timeouts ?l))"
    by (simp_all add: ex_value_defs)
  have r1: "rst_rule (timeouts ?l) (?n - LastSeen ex_rev_rst) ex_rev_rst"
    by (simp add: rst_rule_def ex_value_defs)
  have r2: "\<not> rst_rule (timeouts ?l) (?n - LastSeen ex_rev_fins) ex_rev_fins
            \<and> fins_rule (timeouts ?l) (?n - LastSeen ex_rev_fins) ex_rev_fins"
    by (simp add: rst_rule_def fins_rule_def ex_value_defs)
  have r3: "\<not> rst_rule (timeouts ?l) (?n - LastSeen ex_rev_live) ex_rev_live
            \<and> \<not> fins_rule (timeouts ?l) (?n - LastSeen ex_rev_live) ex_rev_live
            \<and> established_or_dsr ex_rev_live
            \<and> \<not> sint (?n - LastSeen ex_rev_live) > sint (TCPEstablished (timeouts ?l))"
    by (simp add: rst_rule_def fins_rule_def established_or_dsr_def ex_value_defs)
  have r4: "\<not> rst_rule (timeouts ?l) (?n - LastSeen ex_rev_syn) ex_rev_syn
            \<and> \<not> fins_rule (timeouts ?l) (?n - LastSeen ex_rev_syn) ex_rev_syn
            \<and> \<not> established_or_dsr ex_rev_syn
            \<and> sint (?n - LastSeen ex_rev_syn) > sint (TCPPreEstablished (timeouts ?l))"
    by (simp add: rst_rule_def fins_rule_def established_or_dsr_def ex_value_defs)
  have a1: "EntryExpired ?l ?n ProtoTCP ex_rev_rst = (''RST seen'', True)"
    using EntryExpired_tcp_rules[OF g(1)] r1 by simp
  have a2: "EntryExpired ?l ?n ProtoTCP ex_rev_fins = (''FINs seen'', True)"
    using EntryExpired_tcp_rules[OF g(2)] r2 by simp
  have a3: "snd (EntryExpired ?l ?n ProtoTCP ex_rev_live) = False"
    using EntryExpired_tcp_rules[OF g(3)] r3 by simp
  have a4: "snd (EntryExpired ?l ?n ProtoTCP ex_rev_syn) = True"
    using EntryExpired_tcp_rules[OF g(4)] r4 by simp
  from a1 a2 a3 a4 show ?thesis by (intro conjI)
qed

subsection \<open>The stale-NAT scanner\<close>

text \<open>
  C6. The stale-NAT scanner deletes a NAT-Reverse entry exactly when the control plane's
  predicate is false for the original destination paired with leg A and false for it
  paired with leg B, and it never deletes a Normal entry.
\<close>

theorem stale_nat_scanner_verdicts:
  "(Type v = TypeNATReverse \<longrightarrow>
      (NewStaleNATScanner frontendHasBackend k v get = ScanVerdictDelete) =
        (\<not> frontendHasBackend (Some (OrigIP v)) (OrigPort v) (Some (AddrA k)) (PortA k) (Proto k) \<and>
         \<not> frontendHasBackend (Some (OrigIP v)) (OrigPort v) (Some (AddrB k)) (PortB k) (Proto k)))
   \<and> (Type v = TypeNormal \<longrightarrow> NewStaleNATScanner frontendHasBackend k v get = ScanVerdictOK)"
  by (simp add: NewStaleNATScanner_def Let_def)

theorem stale_nat_scanner_verdicts_witness:
  "Type ex_rev_live = TypeNATReverse
   \<and> NewStaleNATScanner ex_frontendHasBackend ex_rev_key ex_rev_live (Map_Get ex_table) = ScanVerdictOK
   \<and> NewStaleNATScanner ex_frontendHasBackend ex_fwd_key ex_rev_live (Map_Get ex_table) = ScanVerdictDelete
   \<and> Type ex_udp = TypeNormal
   \<and> NewStaleNATScanner ex_frontendHasBackend ex_udp_key ex_udp (Map_Get ex_table) = ScanVerdictOK"
proof -
  have t: "Type ex_rev_live = TypeNATReverse" "Type ex_udp = TypeNormal"
    by (simp_all add: ex_value_defs)
  have a: "ex_frontendHasBackend (Some (OrigIP ex_rev_live)) (OrigPort ex_rev_live)
             (Some (AddrB ex_rev_key)) (PortB ex_rev_key) (Proto ex_rev_key)"
    by (simp add: ex_frontendHasBackend_def ex_value_defs ex_key_defs)
  have b: "\<not> ex_frontendHasBackend (Some (OrigIP ex_rev_live)) (OrigPort ex_rev_live)
             (Some (AddrA ex_fwd_key)) (PortA ex_fwd_key) (Proto ex_fwd_key)"
          "\<not> ex_frontendHasBackend (Some (OrigIP ex_rev_live)) (OrigPort ex_rev_live)
             (Some (AddrB ex_fwd_key)) (PortB ex_fwd_key) (Proto ex_fwd_key)"
    by (simp_all add: ex_frontendHasBackend_def ex_value_defs ex_key_defs)
  from stale_nat_scanner_verdicts[of ex_rev_live ex_frontendHasBackend ex_rev_key "Map_Get ex_table"]
       stale_nat_scanner_verdicts[of ex_rev_live ex_frontendHasBackend ex_fwd_key "Map_Get ex_table"]
       stale_nat_scanner_verdicts[of ex_udp ex_frontendHasBackend ex_udp_key "Map_Get ex_table"]
       t a b
  show ?thesis by (metis ScanVerdict.exhaust)
qed

subsection \<open>Passes over the table\<close>

lemma snd_Map_Delete: "snd (Map_Delete m k) = AList.delete k m"
  by (simp add: Map_Delete_def map_of_eq_None_iff)

lemma Map_Get_Inr:
  assumes "distinct (map fst m)"
  shows "(Map_Get m k = Inr v) = ((k, v) \<in> set m)"
proof -
  have "(map_of m k = Some v) = ((k, v) \<in> set m)" using assms by simp
  then show ?thesis by (cases "map_of m k") (auto simp: Map_Get_def)
qed

lemma Map_Get_delete_other:
  "k' \<noteq> k \<Longrightarrow> Map_Get (AList.delete k m) k' = Map_Get m k'"
  by (simp add: Map_Get_def delete_conv')

lemma live_step_simp:
  "live_step l (m, d) (k, v) =
     (if ScanEntry l k v (Map_Get m) = ScanVerdictDelete then (AList.delete k m, d @ [k]) else (m, d))"
  by (simp add: live_step_def snd_Map_Delete)

lemma pass_no_delete:
  "\<forall>(k, v) \<in> set es. ScanEntry l k v (Map_Get m) = ScanVerdictOK
   \<Longrightarrow> foldl (live_step l) (m, d) es = (m, d)"
  by (induction es) (auto simp: live_step_simp)

lemma pass_subset: "set (fst (foldl (live_step l) (m, d) es)) \<subseteq> set m"
proof (induction es arbitrary: m d)
  case Nil
  then show ?case by simp
next
  case (Cons e es)
  obtain k v where e: "e = (k, v)" by (cases e)
  have "set (AList.delete k m) \<subseteq> set m" by (auto simp: AList.delete_eq)
  with Cons.IH[of "AList.delete k m" "d @ [k]"] Cons.IH[of m d] show ?case
    by (auto simp: e live_step_simp)
qed

lemma pass_distinct:
  "distinct (map fst m) \<Longrightarrow> distinct (map fst (fst (foldl (live_step l) (m, d) es)))"
proof (induction es arbitrary: m d)
  case Nil
  then show ?case by simp
next
  case (Cons e es)
  obtain k v where e: "e = (k, v)" by (cases e)
  from Cons.prems have "distinct (map fst (AList.delete k m))" by (rule distinct_delete)
  with Cons.IH[of "AList.delete k m" "d @ [k]"] Cons.IH[of m d] Cons.prems show ?case
    by (auto simp: e live_step_simp)
qed

lemma pass_keeps:
  "(k, v) \<in> set m
   \<Longrightarrow> \<forall>v' g. (k, v') \<in> set es \<longrightarrow> ScanEntry l k v' g = ScanVerdictOK
   \<Longrightarrow> (k, v) \<in> set (fst (foldl (live_step l) (m, d) es))"
proof (induction es arbitrary: m d)
  case Nil
  then show ?case by simp
next
  case (Cons e es)
  obtain k1 v1 where e: "e = (k1, v1)" by (cases e)
  show ?case
  proof (cases "ScanEntry l k1 v1 (Map_Get m) = ScanVerdictDelete")
    case True
    with Cons.prems(2) have "k1 \<noteq> k" by (auto simp: e)
    with Cons.prems(1) have "(k, v) \<in> set (AList.delete k1 m)" by (auto simp: AList.delete_eq)
    with Cons.IH[of "AList.delete k1 m" "d @ [k1]"] Cons.prems(2) True show ?thesis
      by (simp add: e live_step_simp)
  next
    case False
    with Cons.IH[of m d] Cons.prems show ?thesis
      by (simp add: e live_step_simp)
  qed
qed

lemma other_entry_verdict:
  "Type v \<noteq> TypeNATForward \<Longrightarrow> ScanEntry l k v g = ScanEntry l k v g'"
  by (cases "Type v") (simp_all add: ScanEntry_def)

lemma target_entry_kept:
  "Type rv \<noteq> TypeNATForward \<Longrightarrow> \<not> snd (EntryExpired l (NowNanos l) (Proto rk) rv)
   \<Longrightarrow> ScanEntry l rk rv g = ScanVerdictOK"
  by (cases "Type rv") (simp_all add: ScanEntry_def)

lemma forward_entry_kept:
  "Type v = TypeNATForward \<Longrightarrow>
   (ScanEntry l k v g = ScanVerdictOK) =
     (case g (ReverseNATKey v) of Inl err \<Rightarrow> \<not> IsNotExists err
      | Inr rv \<Rightarrow> \<not> snd (EntryExpired l (NowNanos l) (Proto k) rv))"
  by (simp add: ScanEntry_def split: sum.splits)

lemma survivors_ok:
  assumes m0: "ct_consistent m0"
  shows "distinct (map fst m) \<Longrightarrow> set m \<subseteq> set m0 \<Longrightarrow> set es \<subseteq> set m0
         \<Longrightarrow> (k, v) \<in> set es
         \<Longrightarrow> (k, v) \<in> set (fst (foldl (live_step l) (m, d) es))
         \<Longrightarrow> ScanEntry l k v (Map_Get (fst (foldl (live_step l) (m, d) es))) = ScanVerdictOK"
proof (induction es arbitrary: m d)
  case Nil
  then show ?case by simp
next
  case (Cons e es)
  obtain k1 v1 where e: "e = (k1, v1)" by (cases e)
  let ?m1 = "fst (live_step l (m, d) (k1, v1))"
  let ?d1 = "snd (live_step l (m, d) (k1, v1))"
  let ?mf = "fst (foldl (live_step l) (?m1, ?d1) es)"
  have fold_eq: "foldl (live_step l) (m, d) (e # es) = foldl (live_step l) (?m1, ?d1) es"
    by (simp add: e)
  have m1_sub: "set ?m1 \<subseteq> set m" by (auto simp: live_step_simp AList.delete_eq)
  have m1_dist: "distinct (map fst ?m1)"
    using Cons.prems(1) by (auto simp: live_step_simp intro: distinct_delete)
  have mf_dist: "distinct (map fst ?mf)" using m1_dist by (rule pass_distinct)
  have mf_sub: "set ?mf \<subseteq> set ?m1" by (rule pass_subset)
  from Cons.prems(5) have surv: "(k, v) \<in> set ?mf" by (simp only: fold_eq)
  have d0: "distinct (map fst m0)" using m0 by (simp add: ct_consistent_def)
  show ?case
  proof (cases "(k, v) \<in> set es")
    case True
    from Cons.IH[of ?m1 ?d1, OF m1_dist _ _ True surv] m1_sub Cons.prems(2,3)
    show ?thesis by (simp only: fold_eq) auto
  next
    case False
    with Cons.prems(4) have kv: "k1 = k" "v1 = v" by (auto simp: e)
    have in_m1: "(k, v) \<in> set ?m1" using surv mf_sub by auto
    have okm: "ScanEntry l k v (Map_Get m) = ScanVerdictOK"
    proof (rule ccontr)
      assume "ScanEntry l k v (Map_Get m) \<noteq> ScanVerdictOK"
      then have "ScanEntry l k v (Map_Get m) = ScanVerdictDelete"
        by (cases "ScanEntry l k v (Map_Get m)") auto
      then have "?m1 = AList.delete k m" by (simp add: live_step_simp kv)
      with in_m1 show False by (auto simp: AList.delete_eq)
    qed
    then have m1_eq: "?m1 = m" by (simp add: live_step_simp kv)
    show ?thesis
    proof (cases "Type v = TypeNATForward")
      case nf: False
      with okm other_entry_verdict[OF nf, of l k "Map_Get m" "Map_Get ?mf"]
      show ?thesis by (simp only: fold_eq)
    next
      case fw: True
      let ?rk = "ReverseNATKey v"
      from okm fw obtain rv where
        rv: "Map_Get m ?rk = Inr rv" and
        nexp: "\<not> snd (EntryExpired l (NowNanos l) (Proto k) rv)"
        by (auto simp: forward_entry_kept Map_Get_def IsNotExists_def split: sum.splits option.splits)
      from rv Cons.prems(1) have rv_m: "(?rk, rv) \<in> set m" by (simp add: Map_Get_Inr)
      with Cons.prems(2) have rv_m0: "(?rk, rv) \<in> set m0" by auto
      then have mo: "map_of m0 ?rk = Some rv" using d0 by simp
      have kv_m0: "(k, v) \<in> set m0" using Cons.prems(3) by (auto simp: e kv)
      with m0 fw mo have tgt: "Type rv \<noteq> TypeNATForward" "Proto ?rk = Proto k"
        by (auto simp: ct_consistent_def)
      have always_ok: "\<forall>v' g. (?rk, v') \<in> set es \<longrightarrow> ScanEntry l ?rk v' g = ScanVerdictOK"
      proof (intro allI impI)
        fix v' g
        assume "(?rk, v') \<in> set es"
        with Cons.prems(3) have "(?rk, v') \<in> set m0" by auto
        with d0 mo have "v' = rv" by (auto dest: map_of_is_SomeI)
        with tgt nexp show "ScanEntry l ?rk v' g = ScanVerdictOK"
          by (simp add: target_entry_kept)
      qed
      from rv_m m1_eq have "(?rk, rv) \<in> set ?m1" by simp
      from pass_keeps[OF this always_ok] have "(?rk, rv) \<in> set ?mf" .
      with mf_dist have "Map_Get ?mf ?rk = Inr rv" by (simp add: Map_Get_Inr)
      with nexp fw show ?thesis
        by (simp add: fold_eq forward_entry_kept del: foldl_Cons)
    qed
  qed
qed

lemma Map_Get_absent:
  assumes "k \<notin> fst ` set m"
  shows "Map_Get m k = Inl ErrNotExist"
proof -
  from assms have "map_of m k = None" by (simp add: map_of_eq_None_iff)
  then show ?thesis by (simp add: Map_Get_def)
qed

lemma pass_removes:
  "(k, v) \<in> set es \<Longrightarrow> set m \<subseteq> set m0
   \<Longrightarrow> \<forall>m'. set m' \<subseteq> set m0 \<longrightarrow> ScanEntry l k v (Map_Get m') = ScanVerdictDelete
   \<Longrightarrow> k \<notin> fst ` set (fst (foldl (live_step l) (m, d) es))"
proof (induction es arbitrary: m d)
  case Nil
  then show ?case by simp
next
  case (Cons e es)
  obtain k1 v1 where e: "e = (k1, v1)" by (cases e)
  let ?m1 = "fst (live_step l (m, d) (k1, v1))"
  let ?d1 = "snd (live_step l (m, d) (k1, v1))"
  have fold_eq: "foldl (live_step l) (m, d) (e # es) = foldl (live_step l) (?m1, ?d1) es"
    by (simp add: e)
  have m1_sub: "set ?m1 \<subseteq> set m" by (auto simp: live_step_simp AList.delete_eq)
  show ?case
  proof (cases "(k, v) \<in> set es")
    case True
    from Cons.IH[of ?m1 ?d1, OF True _ Cons.prems(3)] m1_sub Cons.prems(2)
    show ?thesis by (simp only: fold_eq) auto
  next
    case False
    with Cons.prems(1) have kv: "k1 = k" "v1 = v" by (auto simp: e)
    from Cons.prems(2,3) have "ScanEntry l k v (Map_Get m) = ScanVerdictDelete" by simp
    then have "?m1 = AList.delete k m" by (simp add: live_step_simp kv)
    then have "k \<notin> fst ` set ?m1" by (auto simp: AList.delete_eq)
    moreover have "set (fst (foldl (live_step l) (?m1, ?d1) es)) \<subseteq> set ?m1" by (rule pass_subset)
    ultimately show ?thesis by (simp only: fold_eq) auto
  qed
qed

lemma pair_deleted:
  assumes c: "ct_consistent m"
      and t: "Type ctVal = TypeNATForward"
      and kv: "(ctKey, ctVal) \<in> set m"
      and rv: "Map_Get m (ReverseNATKey ctVal) = Inr revEntry"
      and x: "snd (EntryExpired l (NowNanos l) (Proto ctKey) revEntry)"
      and u: "Type revEntry \<noteq> TypeUnknown"
  shows "Map_Get (fst (Scan (NewScanner m [ScanEntry l]))) ctKey = Inl ErrNotExist
       \<and> Map_Get (fst (Scan (NewScanner m [ScanEntry l]))) (ReverseNATKey ctVal) = Inl ErrNotExist"
proof -
  let ?rk = "ReverseNATKey ctVal"
  have scan_eq: "Scan (NewScanner m [ScanEntry l]) = foldl (live_step l) (m, []) m"
    by (simp add: Scan_def NewScanner_def Map_Iter_def live_step_def)
  have d: "distinct (map fst m)" using c by (simp add: ct_consistent_def)
  from rv d have rv_m: "(?rk, revEntry) \<in> set m" by (simp add: Map_Get_Inr)
  then have mo: "map_of m ?rk = Some revEntry" using d by simp
  with c t kv have tgt: "Type revEntry \<noteq> TypeNATForward" "Proto ?rk = Proto ctKey"
    by (auto simp: ct_consistent_def)
  have rev_del: "\<forall>m'. set m' \<subseteq> set m \<longrightarrow> ScanEntry l ?rk revEntry (Map_Get m') = ScanVerdictDelete"
    using tgt u x by (cases "Type revEntry") (simp_all add: ScanEntry_def)
  have fwd_del: "\<forall>m'. set m' \<subseteq> set m \<longrightarrow> ScanEntry l ctKey ctVal (Map_Get m') = ScanVerdictDelete"
  proof (intro allI impI)
    fix m' :: bpf_Map
    assume sub: "set m' \<subseteq> set m"
    show "ScanEntry l ctKey ctVal (Map_Get m') = ScanVerdictDelete"
    proof (cases "map_of m' ?rk")
      case None
      then show ?thesis using t by (simp add: ScanEntry_def Map_Get_def IsNotExists_def)
    next
      case (Some rv')
      then have "(?rk, rv') \<in> set m'" by (rule map_of_SomeD)
      with sub have "(?rk, rv') \<in> set m" by auto
      with d mo have "rv' = revEntry" by (auto dest: map_of_is_SomeI)
      with Some x t show ?thesis by (simp add: ScanEntry_def Map_Get_def)
    qed
  qed
  from pass_removes[OF kv _ fwd_del, of m "[]"] pass_removes[OF rv_m _ rev_del, of m "[]"]
  show ?thesis by (simp add: scan_eq Map_Get_absent)
qed

lemmas ex_scan_defs =
  Scan_def NewScanner_def Map_Iter_def ScanEntry_def Map_Get_def Map_Delete_def
  EntryExpired_def ProtoTCP_def ProtoICMP_def RSTSeen_def FINsSeen_def FINsSeenDSR_def
  Established_def IsNotExists_def AList.delete_eq

text \<open>
  C1. The claim as stated fails in its last part: in \<open>ex_table\<close> the forward entry is
  deleted because its reverse entry is expired, and the same pass deletes the reverse
  entry when the iteration reaches it.
\<close>

theorem reverse_deleted_in_same_pass:
  "ScanEntry ex_scanner ex_fwd_key ex_fwd (Map_Get ex_table) = ScanVerdictDelete
   \<and> Map_Get ex_table (ReverseNATKey ex_fwd) = Inr ex_rev_rst
   \<and> snd (EntryExpired ex_scanner (NowNanos ex_scanner) (Proto ex_fwd_key) ex_rev_rst)
   \<and> Scan (NewScanner ex_table [ScanEntry ex_scanner])
       = ([(ex_udp_key, ex_udp)], [ex_fwd_key, ReverseNATKey ex_fwd])"
  by (simp add: ex_table_def ex_scan_defs ex_value_defs ex_key_defs)

text \<open>
  C1, amended. For a NAT-Forward entry: when the look-up of its reverse key reports that
  the key does not exist the verdict is delete; when the look-up fails with another error
  the verdict is keep; when the reverse entry is found the verdict is delete exactly when
  the reverse entry is expired. Handling the forward entry deletes no other key: after
  the step every other key, the reverse key among them, reads as before. When the
  iteration reaches the reverse key, an expired reverse entry of type NAT-Reverse or
  Normal whose key has the protocol of the forward key gets the delete verdict as well,
  whatever the look-ups return. So a pass over a consistent table that holds the forward
  entry and such an expired reverse entry removes both keys; the reverse entry goes when
  the iteration reaches its own key, before or after the forward entry in the same pass.
\<close>

theorem ScanEntry_forward:
  assumes "Type ctVal = TypeNATForward"
  shows "(get (ReverseNATKey ctVal) = Inl ErrNotExist \<longrightarrow>
            ScanEntry l ctKey ctVal get = ScanVerdictDelete)
       \<and> (get (ReverseNATKey ctVal) = Inl ErrOther \<longrightarrow>
            ScanEntry l ctKey ctVal get = ScanVerdictOK)
       \<and> (\<forall>revEntry. get (ReverseNATKey ctVal) = Inr revEntry \<longrightarrow>
            (ScanEntry l ctKey ctVal get = ScanVerdictDelete) =
              snd (EntryExpired l (NowNanos l) (Proto ctKey) revEntry))
       \<and> (\<forall>k'. k' \<noteq> ctKey \<longrightarrow>
            Map_Get (fst (scan_entry [ScanEntry l] ctKey ctVal (m, deleted))) k' = Map_Get m k')
       \<and> set (snd (scan_entry [ScanEntry l] ctKey ctVal (m, deleted))) \<subseteq> insert ctKey (set deleted)
       \<and> (\<forall>revEntry g.
            snd (EntryExpired l (NowNanos l) (Proto ctKey) revEntry) \<and>
            (Type revEntry = TypeNATReverse \<or> Type revEntry = TypeNormal) \<and>
            Proto (ReverseNATKey ctVal) = Proto ctKey \<longrightarrow>
              ScanEntry l (ReverseNATKey ctVal) revEntry g = ScanVerdictDelete)
       \<and> (\<forall>revEntry.
            ct_consistent m \<and> (ctKey, ctVal) \<in> set m \<and>
            Map_Get m (ReverseNATKey ctVal) = Inr revEntry \<and>
            snd (EntryExpired l (NowNanos l) (Proto ctKey) revEntry) \<and>
            (Type revEntry = TypeNATReverse \<or> Type revEntry = TypeNormal) \<longrightarrow>
              Map_Get (fst (Scan (NewScanner m [ScanEntry l]))) ctKey = Inl ErrNotExist \<and>
              Map_Get (fst (Scan (NewScanner m [ScanEntry l]))) (ReverseNATKey ctVal)
                = Inl ErrNotExist)"
proof -
  have verdicts:
    "(get (ReverseNATKey ctVal) = Inl ErrNotExist \<longrightarrow>
        ScanEntry l ctKey ctVal get = ScanVerdictDelete)
     \<and> (get (ReverseNATKey ctVal) = Inl ErrOther \<longrightarrow>
          ScanEntry l ctKey ctVal get = ScanVerdictOK)
     \<and> (\<forall>revEntry. get (ReverseNATKey ctVal) = Inr revEntry \<longrightarrow>
          (ScanEntry l ctKey ctVal get = ScanVerdictDelete) =
            snd (EntryExpired l (NowNanos l) (Proto ctKey) revEntry))"
    using assms by (auto simp: ScanEntry_def IsNotExists_def)
  have step:
    "(\<forall>k'. k' \<noteq> ctKey \<longrightarrow>
        Map_Get (fst (scan_entry [ScanEntry l] ctKey ctVal (m, deleted))) k' = Map_Get m k')
     \<and> set (snd (scan_entry [ScanEntry l] ctKey ctVal (m, deleted))) \<subseteq> insert ctKey (set deleted)"
    by (auto simp: snd_Map_Delete Map_Get_delete_other)
  have rev:
    "\<forall>revEntry g.
       snd (EntryExpired l (NowNanos l) (Proto ctKey) revEntry) \<and>
       (Type revEntry = TypeNATReverse \<or> Type revEntry = TypeNormal) \<and>
       Proto (ReverseNATKey ctVal) = Proto ctKey \<longrightarrow>
         ScanEntry l (ReverseNATKey ctVal) revEntry g = ScanVerdictDelete"
    by (auto simp: ScanEntry_def)
  have pass:
    "\<forall>revEntry.
       ct_consistent m \<and> (ctKey, ctVal) \<in> set m \<and>
       Map_Get m (ReverseNATKey ctVal) = Inr revEntry \<and>
       snd (EntryExpired l (NowNanos l) (Proto ctKey) revEntry) \<and>
       (Type revEntry = TypeNATReverse \<or> Type revEntry = TypeNormal) \<longrightarrow>
         Map_Get (fst (Scan (NewScanner m [ScanEntry l]))) ctKey = Inl ErrNotExist \<and>
         Map_Get (fst (Scan (NewScanner m [ScanEntry l]))) (ReverseNATKey ctVal)
           = Inl ErrNotExist"
  proof (intro allI impI, elim conjE)
    fix revEntry
    assume c: "ct_consistent m" and kv: "(ctKey, ctVal) \<in> set m"
       and rv: "Map_Get m (ReverseNATKey ctVal) = Inr revEntry"
       and x: "snd (EntryExpired l (NowNanos l) (Proto ctKey) revEntry)"
       and ty: "Type revEntry = TypeNATReverse \<or> Type revEntry = TypeNormal"
    from ty have "Type revEntry \<noteq> TypeUnknown" by auto
    from pair_deleted[OF c assms kv rv x this]
    show "Map_Get (fst (Scan (NewScanner m [ScanEntry l]))) ctKey = Inl ErrNotExist \<and>
          Map_Get (fst (Scan (NewScanner m [ScanEntry l]))) (ReverseNATKey ctVal) = Inl ErrNotExist" .
  qed
  from verdicts step rev pass show ?thesis by (intro conjI) (elim conjE, assumption)+
qed

theorem ScanEntry_forward_witness:
  "Type ex_fwd = TypeNATForward
   \<and> ScanEntry ex_scanner ex_fwd_key ex_fwd (Map_Get [(ex_fwd_key, ex_fwd)]) = ScanVerdictDelete
   \<and> ScanEntry ex_scanner ex_fwd_key ex_fwd (\<lambda>k. Inl ErrOther) = ScanVerdictOK
   \<and> ScanEntry ex_scanner ex_fwd_key ex_fwd (Map_Get ex_table) = ScanVerdictDelete
   \<and> Map_Get (fst (scan_entry [ScanEntry ex_scanner] ex_fwd_key ex_fwd (ex_table, []))) ex_rev_key
       = Inr ex_rev_rst
   \<and> ScanEntry ex_scanner ex_rev_key ex_rev_rst (Map_Get [(ex_rev_key, ex_rev_rst)])
       = ScanVerdictDelete
   \<and> ct_consistent ex_table
   \<and> Map_Get (fst (Scan (NewScanner ex_table [ScanEntry ex_scanner]))) ex_fwd_key = Inl ErrNotExist
   \<and> Map_Get (fst (Scan (NewScanner ex_table [ScanEntry ex_scanner]))) ex_rev_key = Inl ErrNotExist"
proof -
  have t: "Type ex_fwd = TypeNATForward" by (simp add: ex_value_defs)
  have g1: "Map_Get [(ex_fwd_key, ex_fwd)] (ReverseNATKey ex_fwd) = Inl ErrNotExist"
    by (simp add: Map_Get_def ex_value_defs ex_key_defs)
  have g2: "Map_Get ex_table (ReverseNATKey ex_fwd) = Inr ex_rev_rst"
    by (simp add: Map_Get_def ex_table_def ex_value_defs ex_key_defs)
  have x: "snd (EntryExpired ex_scanner (NowNanos ex_scanner) (Proto ex_fwd_key) ex_rev_rst)"
    by (simp add: EntryExpired_def ex_value_defs ex_key_defs ProtoTCP_def RSTSeen_def)
  have n: "ex_rev_key \<noteq> ex_fwd_key" by (simp add: ex_key_defs)
  have rk: "ReverseNATKey ex_fwd = ex_rev_key" by (simp add: ex_value_defs)
  have r: "Map_Get ex_table ex_rev_key = Inr ex_rev_rst"
    using g2 by (simp add: rk)
  have ty: "Type ex_rev_rst = TypeNATReverse" by (simp add: ex_value_defs)
  have pr: "Proto (ReverseNATKey ex_fwd) = Proto ex_fwd_key" by (simp add: rk ex_key_defs)
  have c: "ct_consistent ex_table"
    by (simp add: ct_consistent_def ex_table_def ex_value_defs ex_key_defs)
  have kv: "(ex_fwd_key, ex_fwd) \<in> set ex_table" by (simp add: ex_table_def)
  from ScanEntry_forward[OF t, of "Map_Get [(ex_fwd_key, ex_fwd)]" ex_scanner ex_fwd_key "[(ex_fwd_key, ex_fwd)]" "[]"]
       g1
  have a: "ScanEntry ex_scanner ex_fwd_key ex_fwd (Map_Get [(ex_fwd_key, ex_fwd)]) = ScanVerdictDelete"
    by simp
  from ScanEntry_forward[OF t, of "\<lambda>k. Inl ErrOther" ex_scanner ex_fwd_key ex_table "[]"]
  have b: "ScanEntry ex_scanner ex_fwd_key ex_fwd (\<lambda>k. Inl ErrOther) = ScanVerdictOK"
    by simp
  note main = ScanEntry_forward[OF t, of "Map_Get ex_table" ex_scanner ex_fwd_key ex_table "[]"]
  from main g2 x
  have d: "ScanEntry ex_scanner ex_fwd_key ex_fwd (Map_Get ex_table) = ScanVerdictDelete"
    by simp
  from main n r
  have e: "Map_Get (fst (scan_entry [ScanEntry ex_scanner] ex_fwd_key ex_fwd (ex_table, []))) ex_rev_key
             = Inr ex_rev_rst"
    by simp
  from main x ty pr
  have f: "ScanEntry ex_scanner ex_rev_key ex_rev_rst (Map_Get [(ex_rev_key, ex_rev_rst)])
             = ScanVerdictDelete"
    by (simp add: rk)
  from main c kv g2 x ty
  have g: "Map_Get (fst (Scan (NewScanner ex_table [ScanEntry ex_scanner]))) ex_fwd_key = Inl ErrNotExist
         \<and> Map_Get (fst (Scan (NewScanner ex_table [ScanEntry ex_scanner]))) ex_rev_key = Inl ErrNotExist"
    by (simp add: rk)
  from t a b d e f c g show ?thesis by (intro conjI) (elim conjE, assumption)+
qed

text \<open>
  C3. The claim as stated fails on a table that is not consistent: in \<open>ex_chain\<close> the
  first pass keeps the first forward entry, whose target is still there and young, and
  deletes the second, whose target is missing; the second pass then finds the first
  forward entry dangling and deletes it.
\<close>

theorem second_pass_deletes:
  "Scan (NewScanner ex_chain [ScanEntry ex_scanner])
     = ([(ex_fwd_key, ex_fwd \<lparr> ReverseNATKey := ex_mid_key \<rparr>)], [ex_mid_key])
   \<and> snd (Scan (NewScanner (fst (Scan (NewScanner ex_chain [ScanEntry ex_scanner])))
                  [ScanEntry ex_scanner])) = [ex_fwd_key]"
  by (simp add: ex_chain_def ex_scan_defs ex_value_defs ex_key_defs)

text \<open>
  C3, amended. On a consistent table, a pass of the liveness scanner followed at once by
  a second pass with the same clock value: the second pass calls \<open>Delete\<close> on no key and
  leaves the table as the first pass left it.
\<close>

theorem Scan_liveness_twice:
  assumes "ct_consistent m"
  shows "snd (Scan (NewScanner (fst (Scan (NewScanner m [ScanEntry l]))) [ScanEntry l])) = []
         \<and> fst (Scan (NewScanner (fst (Scan (NewScanner m [ScanEntry l]))) [ScanEntry l]))
           = fst (Scan (NewScanner m [ScanEntry l]))"
proof -
  let ?m1 = "fst (foldl (live_step l) (m, []) m)"
  have scan_eq: "\<And>m'. Scan (NewScanner m' [ScanEntry l]) = foldl (live_step l) (m', []) m'"
    by (simp add: Scan_def NewScanner_def Map_Iter_def live_step_def)
  have d: "distinct (map fst m)" using assms by (simp add: ct_consistent_def)
  have sub: "set ?m1 \<subseteq> set m" by (rule pass_subset)
  have "\<forall>(k, v) \<in> set ?m1. ScanEntry l k v (Map_Get ?m1) = ScanVerdictOK"
  proof (clarify)
    fix k v assume kv: "(k, v) \<in> set ?m1"
    with sub have "(k, v) \<in> set m" by auto
    from survivors_ok[OF assms d _ _ this kv] show "ScanEntry l k v (Map_Get ?m1) = ScanVerdictOK"
      by simp
  qed
  then have "foldl (live_step l) (?m1, []) ?m1 = (?m1, [])" by (rule pass_no_delete)
  then show ?thesis by (simp add: scan_eq)
qed

theorem Scan_liveness_twice_witness:
  "ct_consistent ex_table
   \<and> fst (Scan (NewScanner ex_table [ScanEntry ex_scanner])) = [(ex_udp_key, ex_udp)]
   \<and> snd (Scan (NewScanner (fst (Scan (NewScanner ex_table [ScanEntry ex_scanner])))
                  [ScanEntry ex_scanner])) = []"
proof -
  have c: "ct_consistent ex_table"
    by (simp add: ct_consistent_def ex_table_def ex_value_defs ex_key_defs)
  have f: "fst (Scan (NewScanner ex_table [ScanEntry ex_scanner])) = [(ex_udp_key, ex_udp)]"
    by (simp add: ex_table_def ex_scan_defs ex_value_defs ex_key_defs)
  from Scan_liveness_twice[OF c, of ex_scanner] c f show ?thesis by simp
qed

section \<open>Properties of the TC program\<close>

lemmas ex_tc_defs =
  ex_config_def ex_helpers_def ex_rt_lookup_def ex_icmp_reply_def ex_skb_def ex_skb_spoofed_def
  ex_skb_from_host_def ex_skb_bypass_def ex_skb_ttl1_def ex_skb_ext_big_def
  ex_skb_udp_nonlinear_def ex_state_udp_def ex_state_dnat_def ex_skb_reply_big_def
  ex_state_reply_def ex_helpers_no_icmp_def
  ex_state_def ex_state_ext_def ex_world_def zero_state_def zero_ct_ctx_def

lemmas tc_flag_defs =
  CALI_F_FROM_WEP_def CALI_F_TO_WEP_def CALI_F_FROM_HEP_def CALI_F_TO_HEP_def CALI_F_WEP_def
  CALI_F_HEP_def CALI_F_TO_HOST_def CALI_F_FROM_HOST_def FIB_ENABLED_def fwd_fib_def
  fwd_fib_set_def fwd_fib_set_flags_def

lemmas tc_const_defs =
  TC_ACT_UNSPEC_def TC_ACT_SHOT_def TC_ACT_REDIRECT_def ETH_P_IP_def ETH_P_ARP_def
  ETH_P_IPV6_def IPPROTO_ICMP_def IPPROTO_IPIP_def IPPROTO_TCP_def IPPROTO_UDP_def
  BPF_F_INGRESS_def BPF_FIB_LOOKUP_OUTPUT_def BPF_F_PSEUDO_HDR_def BPF_F_MARK_MANGLED_0_def
  sizeof_ethhdr_def offsetof_iphdr_check_def offsetof_tcphdr_check_def offsetof_udphdr_check_def

lemmas tc_classify_defs =
  tc_classify_def tc_parse_def tc_l4_def tc_ct_ctx_def tc_src_fixup_def tc_allow_def tc_deny_def

lemmas tc_entry_defs =
  calico_tc_def tc_conntrack_def tc_new_flow_def tc_policy_jump_def tc_skip_policy_def

lemmas tc_fod_defs =
  forward_or_drop_def fod_deny_def fod_skip_fib_def fod_redir_ifindex_def fod_fib_def
  eth_hdr_short_def emit_def

lemmas tc_acc_defs =
  calico_tc_skb_accepted_def ttl_shortcut_def acc_new_def acc_established_dnat_def
  acc_established_snat_def acc_dnat_def acc_dnat_encap_def acc_dnat_rewrite_def
  acc_nat_encap_def acc_icmp_too_big_def acc_icmp_ttl_exceeded_def acc_allow_def acc_deny_def
  encap_too_big_def l3_csum_off_def l4_csum_off_def skb_nat_l4_csum_ipv4_def
  calico_tc_skb_accepted_entrypoint_def calico_tc_norm_pol_tail_def execute_policy_norm_def

lemmas ex_run_defs =
  tc_classify_defs tc_entry_defs tc_fod_defs tc_acc_defs tc_flag_defs tc_const_defs ex_tc_defs
  Let_def

subsection \<open>What the stages add to the trace\<close>

lemma grows_refl: "grows w w"
  by (simp add: grows_def)

lemma grows_emit: "grows w0 w \<Longrightarrow> \<forall>n. e \<noteq> EvTailCall n \<Longrightarrow> grows w0 (emit e w) = True"
  by (auto simp: grows_def emit_def)

lemma grows_skb: "grows w0 (w \<lparr> w_skb := s \<rparr>) = grows w0 w"
  by (simp add: grows_def)

lemma grows_slot: "grows w0 (w \<lparr> cali_v4_state := x \<rparr>) = grows w0 w"
  by (simp add: grows_def)

lemmas grows_simps = grows_emit grows_skb grows_slot

lemma grows_l4_csum:
  "grows w0 w \<Longrightarrow> grows w0 (snd (skb_nat_l4_csum_ipv4 h w off a b p q fl))"
  by (simp add: skb_nat_l4_csum_ipv4_def Let_def grows_simps split: prod.splits)

lemma grows_allow: "grows w0 w \<Longrightarrow> grows w0 (fst (snd (acc_allow cfg r m fb fl w st)))"
  by (simp add: acc_allow_def)

lemma grows_deny: "grows w0 w \<Longrightarrow> grows w0 (fst (snd (acc_deny rsn w st)))"
  by (simp add: acc_deny_def)

lemma grows_icmp_ttl:
  "grows w0 w \<Longrightarrow> grows w0 (fst (snd (acc_icmp_ttl_exceeded cfg h m fb w st)))"
  by (simp add: acc_icmp_ttl_exceeded_def Let_def grows_simps grows_allow grows_deny
      split: prod.splits)

lemma grows_icmp_too_big:
  "grows w0 w \<Longrightarrow> grows w0 (fst (snd (acc_icmp_too_big cfg h fb w st)))"
  by (simp add: acc_icmp_too_big_def Let_def grows_simps grows_allow grows_deny
      split: prod.splits)

lemma grows_nat_encap:
  "grows w0 w \<Longrightarrow> grows w0 (fst (snd (acc_nat_encap cfg h m fb w st)))"
  by (simp add: acc_nat_encap_def Let_def grows_simps grows_allow grows_deny
      split: prod.splits)

lemma grows_dnat_encap:
  "grows w0 w \<Longrightarrow> grows w0 (fst (snd (acc_dnat_encap cfg h fb rt w st)))"
  by (simp add: acc_dnat_encap_def Let_def grows_icmp_too_big grows_nat_encap)

lemma grows_dnat_rewrite:
  "grows w0 w \<Longrightarrow> grows w0 (fst (snd (acc_dnat_rewrite cfg h m fb w st)))"
  by (simp add: acc_dnat_rewrite_def Let_def case_prod_beta grows_simps grows_allow grows_deny
      grows_l4_csum)

lemma grows_dnat:
  "grows w0 w \<Longrightarrow> grows w0 (fst (snd (acc_dnat cfg h m fb ctx w st)))"
  by (simp add: acc_dnat_def Let_def grows_simps grows_deny grows_dnat_encap grows_dnat_rewrite
      split: option.splits)

lemma grows_established_dnat:
  "grows w0 w \<Longrightarrow> grows w0 (fst (snd (acc_established_dnat cfg h m fb w st)))"
  by (simp add: acc_established_dnat_def grows_allow grows_dnat)

lemma grows_new:
  "grows w0 w \<Longrightarrow> grows w0 (fst (snd (acc_new cfg h m fb nd w st)))"
  by (simp add: acc_new_def Let_def grows_simps grows_allow grows_deny grows_dnat
      split: calico_policy_result.splits option.splits)

lemma grows_established_snat:
  "grows w0 w \<Longrightarrow> grows w0 (fst (snd (acc_established_snat cfg h m fb w st)))"
  by (simp add: acc_established_snat_def Let_def case_prod_beta grows_simps grows_allow grows_deny
      grows_l4_csum grows_icmp_too_big grows_nat_encap)

lemma grows_accepted:
  "grows w0 (emit (EvSkbAccepted st) w)
   \<Longrightarrow> grows w0 (fst (snd (calico_tc_skb_accepted cfg h w st nd)))"
  by (simp add: calico_tc_skb_accepted_def Let_def grows_allow grows_deny grows_icmp_ttl
      grows_new grows_established_dnat grows_established_snat
      split: calico_ct_result_type.splits)

lemma grows_fod_skip_fib: "grows w0 w \<Longrightarrow> grows w0 (final (fod_skip_fib cfg f r w))"
  by (simp add: fod_skip_fib_def grows_simps)

lemma grows_fod_deny: "grows w0 w \<Longrightarrow> grows w0 (final (fod_deny rsn w))"
  by (simp add: fod_deny_def)

lemma grows_fod_redir: "grows w0 w \<Longrightarrow> grows w0 (final (fod_redir_ifindex cfg h f w))"
  by (simp add: fod_redir_ifindex_def Let_def grows_simps grows_fod_skip_fib grows_fod_deny)

lemma grows_fod_fib: "grows w0 w \<Longrightarrow> grows w0 (final (fod_fib cfg h st f w))"
  by (simp add: fod_fib_def Let_def case_prod_beta grows_simps grows_fod_skip_fib grows_fod_deny)

lemma grows_forward_or_drop: "grows w0 w \<Longrightarrow> grows w0 (final (forward_or_drop cfg h w st f))"
  by (simp add: forward_or_drop_def grows_fod_deny grows_fod_redir grows_fod_fib
      grows_fod_skip_fib)

lemma grows_skip_policy:
  "grows (emit (EvSkbAccepted st) w) (final (tc_skip_policy cfg h w st nd))"
  by (simp add: tc_skip_policy_def case_prod_beta grows_forward_or_drop grows_accepted grows_refl)

lemma emit_fields: "w_skb (emit e w) = w_skb w" "cali_v4_state (emit e w) = cali_v4_state w"
  by (simp_all add: emit_def)

lemma classified_ct_ctx:
  "tc_ct_ctx cfg h w st f = Classified w' st' f' ctx
   \<Longrightarrow> w' = w \<and> st' = st \<and> ctx_src ctx = ip_src st"
  by (auto simp: tc_ct_ctx_def Let_def zero_ct_ctx_def split: if_splits)

lemma classified_l4:
  "tc_l4 cfg h w st0 f = Classified w' st f' ctx
   \<Longrightarrow> w' = w \<and> ip_src st = saddr (iph (w_skb w)) \<and> ctx_src ctx = ip_src st"
  by (auto simp: tc_l4_def Let_def split: if_splits dest!: classified_ct_ctx)

lemma classified_parse:
  "tc_parse cfg h w st0 f = Classified w' st f' ctx
   \<Longrightarrow> grows w w' \<and> cali_v4_state w' = cali_v4_state w \<and>
       ip_src st = saddr (iph (w_skb w')) \<and> ctx_src ctx = ip_src st"
  by (auto simp: tc_parse_def Let_def grows_simps grows_refl emit_fields
      split: if_splits prod.splits dest!: classified_l4)

lemma classified_facts:
  "tc_classify cfg h skb slot = Classified w st f ctx
   \<Longrightarrow> (\<forall>n. EvTailCall n \<notin> set (trace w)) \<and> cali_v4_state w = slot \<and>
       ip_src st = saddr (iph (w_skb w)) \<and> ctx_src ctx = ip_src st"
  by (auto simp: tc_classify_def Let_def grows_def split: if_splits dest!: classified_parse)

lemma skip_policy_trace:
  "\<exists>evs. trace (final (tc_skip_policy cfg h w st nd)) = trace w @ EvSkbAccepted st # evs
         \<and> (\<forall>n. EvTailCall n \<notin> set evs)"
  using grows_skip_policy[of st w cfg h nd] by (auto simp: grows_def emit_def)

subsection \<open>The bypass mark\<close>

text \<open>
  C2. On a hook that is not towards the host, a frame whose mark (after the mark
  override of a test build, if any) is the bypass mark is passed at once: the program
  returns \<open>TC_ACT_UNSPEC\<close>, calls no helper (no conntrack lookup, no map write) and leaves
  the frame and the state map as they were. The result code \<open>CALI_RES_REDIR_IFINDEX\<close> of
  the absent header is assumed to differ from \<open>TC_ACT_UNSPEC\<close>.
\<close>

theorem bypass_mark_passes:
  assumes "\<not> CALI_F_TO_HOST cfg"
    and "(case CALI_SET_SKB_MARK cfg of None \<Rightarrow> mark skb | Some m \<Rightarrow> m) = CALI_SKB_MARK_BYPASS cfg"
    and "CALI_RES_REDIR_IFINDEX cfg \<noteq> TC_ACT_UNSPEC"
  shows "calico_tc cfg h skb state_slot =
           \<lparr> verdict = TC_ACT_UNSPEC, drop_reason = None,
             final = \<lparr> w_skb = (case CALI_SET_SKB_MARK cfg of None \<Rightarrow> skb
                                 | Some m \<Rightarrow> skb \<lparr> mark := m \<rparr>),
                       cali_v4_state = state_slot, trace = [] \<rparr> \<rparr>"
proof -
  have fib: "\<not> FIB_ENABLED cfg" using assms(1) by (simp add: FIB_ENABLED_def)
  have shot: "TC_ACT_UNSPEC \<noteq> TC_ACT_SHOT" by (simp add: TC_ACT_UNSPEC_def TC_ACT_SHOT_def)
  have cls: "tc_classify cfg h skb state_slot =
               Direct \<lparr> verdict = TC_ACT_UNSPEC, drop_reason = None,
                        final = \<lparr> w_skb = (case CALI_SET_SKB_MARK cfg of None \<Rightarrow> skb
                                            | Some m \<Rightarrow> skb \<lparr> mark := m \<rparr>),
                                  cali_v4_state = state_slot, trace = [] \<rparr> \<rparr>"
    using assms fib shot
    by (cases "CALI_SET_SKB_MARK cfg")
       (simp_all add: tc_classify_def tc_allow_def forward_or_drop_def fod_skip_fib_def
          fwd_fib_set_def fwd_fib_def Let_def)
  show ?thesis by (simp add: calico_tc_def cls)
qed

theorem bypass_mark_passes_witness:
  "\<not> CALI_F_TO_HOST (ex_config ToWorkload)
   \<and> mark ex_skb_bypass = CALI_SKB_MARK_BYPASS (ex_config ToWorkload)
   \<and> calico_tc (ex_config ToWorkload) (ex_helpers ToWorkload) ex_skb_bypass (Some ex_state) =
       \<lparr> verdict = TC_ACT_UNSPEC, drop_reason = None,
         final = \<lparr> w_skb = ex_skb_bypass, cali_v4_state = Some ex_state, trace = [] \<rparr> \<rparr>"
proof -
  have a: "\<not> CALI_F_TO_HOST (ex_config ToWorkload)"
    by (simp add: tc_flag_defs ex_config_def)
  have b: "(case CALI_SET_SKB_MARK (ex_config ToWorkload) of None \<Rightarrow> mark ex_skb_bypass | Some m \<Rightarrow> m)
             = CALI_SKB_MARK_BYPASS (ex_config ToWorkload)"
    by (simp add: ex_config_def ex_skb_bypass_def ex_skb_def)
  have c: "CALI_RES_REDIR_IFINDEX (ex_config ToWorkload) \<noteq> TC_ACT_UNSPEC"
    by (simp add: ex_config_def TC_ACT_UNSPEC_def)
  have d: "CALI_SET_SKB_MARK (ex_config ToWorkload) = None" by (simp add: ex_config_def)
  from bypass_mark_passes[OF a b c, of "ex_helpers ToWorkload" "Some ex_state"] a b d
  show ?thesis by simp
qed

subsection \<open>New flows on the workload hooks\<close>

text \<open>
  C9. On a from-workload hook, a packet that the classifier handed to the conntrack
  lookup and that the lookup reports as a new flow is dropped unless the route lookup of
  its source address finds a route that is flagged as a local workload and whose
  interface index is the \<open>ifindex\<close> of the frame, that is of the interface the packet
  entered on. A dropped packet got no further than the conntrack and the NAT lookup.
\<close>

theorem workload_rpf_check:
  assumes "hook cfg = FromWorkload"
    and "tc_classify cfg h skb state_slot = Classified w state f ct_lookup_ctx"
    and "rc (calico_ct_v4_lookup h (w_skb w) ct_lookup_ctx) = CALI_CT_NEW"
    and "\<not> rpf_ok h (ip_src state) (w_skb w)"
  shows "ip_src state = saddr (iph (w_skb w))
       \<and> verdict (calico_tc cfg h skb state_slot) = TC_ACT_SHOT
       \<and> cali_v4_state (final (calico_tc cfg h skb state_slot)) = state_slot
       \<and> trace (final (calico_tc cfg h skb state_slot)) =
           trace w @ [EvCtLookup ct_lookup_ctx (calico_ct_v4_lookup h (w_skb w) ct_lookup_ctx),
                      EvNatLookup (ip_src state) (ip_dst state) (ip_proto state) (dport state)
                        (nat_tun_src state \<noteq> 0)]"
proof -
  from classified_facts[OF assms(2)]
  have src: "ip_src state = saddr (iph (w_skb w))" and slot: "cali_v4_state w = state_slot"
    by simp_all
  have "verdict (calico_tc cfg h skb state_slot) = TC_ACT_SHOT
       \<and> cali_v4_state (final (calico_tc cfg h skb state_slot)) = cali_v4_state w
       \<and> trace (final (calico_tc cfg h skb state_slot)) =
           trace w @ [EvCtLookup ct_lookup_ctx (calico_ct_v4_lookup h (w_skb w) ct_lookup_ctx),
                      EvNatLookup (ip_src state) (ip_dst state) (ip_proto state) (dport state)
                        (nat_tun_src state \<noteq> 0)]"
    using assms
    by (auto simp: calico_tc_def tc_conntrack_def tc_new_flow_def rpf_ok_def CALI_F_TO_WEP_def
        CALI_F_FROM_WEP_def tc_deny_def forward_or_drop_def fod_deny_def emit_def Let_def
        split: option.splits)
  with src slot show ?thesis by simp
qed

theorem workload_rpf_check_witness:
  "hook (ex_config FromWorkload) = FromWorkload
   \<and> (\<exists>w state f ctx.
        tc_classify (ex_config FromWorkload) (ex_helpers FromWorkload) ex_skb_spoofed (Some zero_state)
          = Classified w state f ctx
        \<and> rc (calico_ct_v4_lookup (ex_helpers FromWorkload) (w_skb w) ctx) = CALI_CT_NEW
        \<and> \<not> rpf_ok (ex_helpers FromWorkload) (ip_src state) (w_skb w))
   \<and> verdict (calico_tc (ex_config FromWorkload) (ex_helpers FromWorkload) ex_skb_spoofed
                (Some zero_state)) = TC_ACT_SHOT"
proof -
  let ?cfg = "ex_config FromWorkload" and ?h = "ex_helpers FromWorkload"
  obtain w state f ctx where
    cls: "tc_classify ?cfg ?h ex_skb_spoofed (Some zero_state) = Classified w state f ctx"
    and w: "w_skb w = ex_skb_spoofed" and src: "ip_src state = 0x0A000063"
    by (simp add: tc_classify_defs tc_flag_defs tc_const_defs ex_tc_defs Let_def)
  have hk: "hook ?cfg = FromWorkload" by (simp add: ex_config_def)
  have new: "rc (calico_ct_v4_lookup ?h (w_skb w) ctx) = CALI_CT_NEW"
    by (simp add: ex_helpers_def)
  have rpf: "\<not> rpf_ok ?h (ip_src state) (w_skb w)"
    by (simp add: rpf_ok_def src ex_helpers_def ex_rt_lookup_def)
  from workload_rpf_check[OF hk cls new rpf] hk cls new rpf show ?thesis by blast
qed

text \<open>
  C10. On a to-workload hook, a packet that the classifier handed to the conntrack
  lookup and that the lookup reports as a new flow, whose mark is not the seen mark and
  whose source address has route flags of the local host: the program goes on at the
  label \<open>skip_policy\<close> with \<open>pol_rc\<close> set to allow, having done the conntrack and the NAT
  lookup only; it has not written the state map and does not jump to the policy program.
\<close>

theorem host_to_workload_skips_policy:
  assumes "hook cfg = ToWorkload"
    and "tc_classify cfg h skb state_slot = Classified w state f ct_lookup_ctx"
    and "rc (calico_ct_v4_lookup h (w_skb w) ct_lookup_ctx) = CALI_CT_NEW"
    and "mark (w_skb w) \<noteq> CALI_SKB_MARK_SEEN cfg"
    and "cali_rt_flags_local_host h (cali_rt_lookup_flags h (ip_src state))"
  shows "ip_src state = saddr (iph (w_skb w))
       \<and> (\<exists>w' state' nat_dest_ptr evs.
             calico_tc cfg h skb state_slot = tc_skip_policy cfg h w' state' nat_dest_ptr
           \<and> pol_rc state' = CALI_POL_ALLOW
           \<and> w_skb w' = w_skb w
           \<and> cali_v4_state w' = state_slot
           \<and> trace (final (calico_tc cfg h skb state_slot)) =
               trace w @ [EvCtLookup ct_lookup_ctx (calico_ct_v4_lookup h (w_skb w) ct_lookup_ctx),
                          EvNatLookup (ip_src state) (ip_dst state) (ip_proto state)
                            (dport state) (nat_tun_src state \<noteq> 0),
                          EvSkbAccepted state'] @ evs
           \<and> (\<forall>n. EvTailCall n \<notin> set (trace w @ evs)))"
proof -
  from classified_facts[OF assms(2)]
  have src: "ip_src state = saddr (iph (w_skb w))" and slot: "cali_v4_state w = state_slot"
    and quiet: "\<forall>n. EvTailCall n \<notin> set (trace w)"
    by simp_all
  have "\<exists>w' state' nat_dest_ptr.
           calico_tc cfg h skb state_slot = tc_skip_policy cfg h w' state' nat_dest_ptr
         \<and> pol_rc state' = CALI_POL_ALLOW
         \<and> w_skb w' = w_skb w
         \<and> cali_v4_state w' = cali_v4_state w
         \<and> trace w' =
             trace w @ [EvCtLookup ct_lookup_ctx (calico_ct_v4_lookup h (w_skb w) ct_lookup_ctx),
                        EvNatLookup (ip_src state) (ip_dst state) (ip_proto state) (dport state)
                          (nat_tun_src state \<noteq> 0)]"
  proof -
    let ?r = "calico_ct_v4_lookup h (w_skb w) ct_lookup_ctx"
    let ?w0 = "emit (EvCtLookup ct_lookup_ctx ?r) w"
    have step: "\<exists>state' nat_dest_ptr.
                  tc_new_flow cfg h ?w0 st f =
                    tc_skip_policy cfg h
                      (emit (EvNatLookup (ip_src st) (ip_dst st) (ip_proto st) (dport st)
                               (nat_tun_src st \<noteq> 0)) ?w0) state' nat_dest_ptr
                \<and> pol_rc state' = CALI_POL_ALLOW"
      if "ip_src st = ip_src state" for st
    proof (cases "calico_v4_nat_lookup2 h (ip_src st) (ip_dst st) (ip_proto st) (dport st)
                    (nat_tun_src st \<noteq> 0)")
      case None
      with assms(1,4,5) that show ?thesis
        by (intro exI conjI, simp add: tc_new_flow_def CALI_F_TO_WEP_def emit_def Let_def, simp)
    next
      case (Some d)
      with assms(1,4,5) that show ?thesis
        by (intro exI conjI, simp add: tc_new_flow_def CALI_F_TO_WEP_def emit_def Let_def, simp)
    qed
    show ?thesis
    proof (cases "ct_flags ?r AND CALI_CT_FLAG_NAT_OUT cfg \<noteq> 0")
      case True
      let ?st = "state \<lparr> ct_result := ?r,
                         flags := flags state OR CALI_ST_NAT_OUTGOING cfg \<rparr>"
      from step[of ?st] obtain state' nat_dest_ptr where
        "tc_new_flow cfg h ?w0 ?st f =
           tc_skip_policy cfg h
             (emit (EvNatLookup (ip_src state) (ip_dst state) (ip_proto state) (dport state)
                      (nat_tun_src state \<noteq> 0)) ?w0) state' nat_dest_ptr"
        "pol_rc state' = CALI_POL_ALLOW"
        by auto
      with assms(2,3) True show ?thesis
        by (intro exI conjI, simp add: calico_tc_def tc_conntrack_def emit_def Let_def)
           (simp_all add: emit_def)
    next
      case False
      let ?st = "state \<lparr> ct_result := ?r \<rparr>"
      from step[of ?st] obtain state' nat_dest_ptr where
        "tc_new_flow cfg h ?w0 ?st f =
           tc_skip_policy cfg h
             (emit (EvNatLookup (ip_src state) (ip_dst state) (ip_proto state) (dport state)
                      (nat_tun_src state \<noteq> 0)) ?w0) state' nat_dest_ptr"
        "pol_rc state' = CALI_POL_ALLOW"
        by auto
      with assms(2,3) False show ?thesis
        by (intro exI conjI, simp add: calico_tc_def tc_conntrack_def emit_def Let_def)
           (simp_all add: emit_def)
    qed
  qed
  then obtain w' state' nat_dest_ptr where
    eq: "calico_tc cfg h skb state_slot = tc_skip_policy cfg h w' state' nat_dest_ptr"
    and allow: "pol_rc state' = CALI_POL_ALLOW"
    and skb': "w_skb w' = w_skb w"
    and slot': "cali_v4_state w' = cali_v4_state w"
    and tr: "trace w' =
               trace w @ [EvCtLookup ct_lookup_ctx (calico_ct_v4_lookup h (w_skb w) ct_lookup_ctx),
                          EvNatLookup (ip_src state) (ip_dst state) (ip_proto state) (dport state)
                            (nat_tun_src state \<noteq> 0)]"
    by blast
  from skip_policy_trace[of cfg h w' state' nat_dest_ptr] obtain evs where
    evs: "trace (final (tc_skip_policy cfg h w' state' nat_dest_ptr)) =
            trace w' @ EvSkbAccepted state' # evs"
    and evs_quiet: "\<forall>n. EvTailCall n \<notin> set evs"
    by blast
  have "calico_tc cfg h skb state_slot = tc_skip_policy cfg h w' state' nat_dest_ptr
      \<and> pol_rc state' = CALI_POL_ALLOW
      \<and> w_skb w' = w_skb w
      \<and> cali_v4_state w' = state_slot
      \<and> trace (final (calico_tc cfg h skb state_slot)) =
          trace w @ [EvCtLookup ct_lookup_ctx (calico_ct_v4_lookup h (w_skb w) ct_lookup_ctx),
                     EvNatLookup (ip_src state) (ip_dst state) (ip_proto state)
                       (dport state) (nat_tun_src state \<noteq> 0),
                     EvSkbAccepted state'] @ evs
      \<and> (\<forall>n. EvTailCall n \<notin> set (trace w @ evs))"
    using eq allow skb' slot' slot tr evs evs_quiet quiet by simp
  then show ?thesis using src by blast
qed

theorem host_to_workload_skips_policy_witness:
  "hook (ex_config ToWorkload) = ToWorkload
   \<and> (\<exists>w state f ctx.
        tc_classify (ex_config ToWorkload) (ex_helpers ToWorkload) ex_skb_from_host (Some zero_state)
          = Classified w state f ctx
        \<and> rc (calico_ct_v4_lookup (ex_helpers ToWorkload) (w_skb w) ctx) = CALI_CT_NEW
        \<and> mark (w_skb w) \<noteq> CALI_SKB_MARK_SEEN (ex_config ToWorkload)
        \<and> cali_rt_flags_local_host (ex_helpers ToWorkload)
            (cali_rt_lookup_flags (ex_helpers ToWorkload) (ip_src state)))
   \<and> (\<exists>w' state' nat_dest_ptr.
        calico_tc (ex_config ToWorkload) (ex_helpers ToWorkload) ex_skb_from_host (Some zero_state)
          = tc_skip_policy (ex_config ToWorkload) (ex_helpers ToWorkload) w' state' nat_dest_ptr
        \<and> pol_rc state' = CALI_POL_ALLOW)
   \<and> verdict (calico_tc (ex_config ToWorkload) (ex_helpers ToWorkload) ex_skb_from_host
                (Some zero_state)) = TC_ACT_UNSPEC"
proof -
  let ?cfg = "ex_config ToWorkload" and ?h = "ex_helpers ToWorkload"
  obtain w state f ctx where
    cls: "tc_classify ?cfg ?h ex_skb_from_host (Some zero_state) = Classified w state f ctx"
    and w: "w_skb w = ex_skb_from_host" and src: "ip_src state = 0x0A000001"
    by (simp add: tc_classify_defs tc_flag_defs tc_const_defs ex_tc_defs Let_def)
  have hk: "hook ?cfg = ToWorkload" by (simp add: ex_config_def)
  have new: "rc (calico_ct_v4_lookup ?h (w_skb w) ctx) = CALI_CT_NEW"
    by (simp add: ex_helpers_def)
  have mk: "mark (w_skb w) \<noteq> CALI_SKB_MARK_SEEN ?cfg"
    by (simp add: w ex_skb_from_host_def ex_skb_def ex_config_def)
  have host: "cali_rt_flags_local_host ?h (cali_rt_lookup_flags ?h (ip_src state))"
    by (simp add: src ex_helpers_def ex_rt_lookup_def)
  have v: "verdict (calico_tc ?cfg ?h ex_skb_from_host (Some zero_state)) = TC_ACT_UNSPEC"
    by (simp add: ex_run_defs)
  from host_to_workload_skips_policy[OF hk cls new mk host] hk cls new mk host v
  show ?thesis by blast
qed

subsection \<open>Policy results of a new flow\<close>

text \<open>
  C8. The claim as stated fails for a packet whose TTL is exceeded on a flow that is to
  be NATed: the test of the TTL comes before the test of the policy result, so the
  post-policy program answers the denied packet with an ICMP time-exceeded message and
  returns \<open>TC_ACT_UNSPEC\<close> for it.
\<close>

theorem denied_flow_not_shot:
  "rc (ct_result ex_state) = CALI_CT_NEW
   \<and> \<not> CALI_DEBUG_ALLOW_ALL (ex_config FromWorkload)
   \<and> execute_policy_norm (ex_config FromWorkload) (ex_helpers FromWorkload) (ip_proto ex_state)
       (ip_src ex_state) (ip_dst ex_state) (sport ex_state) (dport ex_state) = CALI_POL_DENY
   \<and> verdict (calico_tc_norm_pol_tail (ex_config FromWorkload) (ex_helpers FromWorkload)
                (ex_world ex_skb_ttl1 ex_state)) = TC_ACT_UNSPEC
   \<and> verdict (calico_tc_skb_accepted_entrypoint (ex_config FromWorkload) (ex_helpers FromWorkload)
                (ex_world ex_skb_ttl1 (ex_state \<lparr> pol_rc := CALI_POL_DENY \<rparr>))) = TC_ACT_UNSPEC
   \<and> verdict (calico_tc (ex_config FromWorkload) (ex_helpers FromWorkload) ex_skb_ttl1
                (Some zero_state)) = TC_ACT_UNSPEC
   \<and> EvIcmpTtlExceeded \<in> set (trace (final (calico_tc (ex_config FromWorkload)
                                               (ex_helpers FromWorkload) ex_skb_ttl1
                                               (Some zero_state))))
   \<and> TC_ACT_UNSPEC \<noteq> TC_ACT_SHOT"
  by (simp add: ex_run_defs)

text \<open>
  C8, amended. In a build without \<open>CALI_DEBUG_ALLOW_ALL\<close> the policy program's result
  is no-match or deny. For a new flow on which the TTL shortcut is not taken (the TTL is
  not exceeded, or the flow has no NAT destination), the post-policy program returns
  \<open>TC_ACT_SHOT\<close> when the policy result in the state map is no-match or deny, and so does
  the policy program of such a build when it runs on the flow.
\<close>

theorem unmatched_new_flow_dropped:
  assumes "cali_v4_state w = Some state"
    and "rc (ct_result state) = CALI_CT_NEW"
    and "\<not> (ip_ttl_exceeded h (iph (w_skb w)) \<and> nd_addr (nat_dest state) \<noteq> 0)"
  shows "(\<not> CALI_DEBUG_ALLOW_ALL cfg \<longrightarrow>
            execute_policy_norm cfg h proto src dst sp dp \<in> {CALI_POL_NO_MATCH, CALI_POL_DENY})
       \<and> (pol_rc state \<in> {CALI_POL_NO_MATCH, CALI_POL_DENY} \<longrightarrow>
            verdict (calico_tc_skb_accepted_entrypoint cfg h w) = TC_ACT_SHOT)
       \<and> (\<not> CALI_DEBUG_ALLOW_ALL cfg \<longrightarrow>
            verdict (calico_tc_norm_pol_tail cfg h w) = TC_ACT_SHOT)"
proof (intro conjI impI)
  assume "\<not> CALI_DEBUG_ALLOW_ALL cfg"
  then show "execute_policy_norm cfg h proto src dst sp dp \<in> {CALI_POL_NO_MATCH, CALI_POL_DENY}"
    by (simp add: execute_policy_norm_def)
next
  have post: "verdict (calico_tc_skb_accepted_entrypoint cfg h w') = TC_ACT_SHOT"
    if "cali_v4_state w' = Some st" "rc (ct_result st) = CALI_CT_NEW"
       "\<not> (ip_ttl_exceeded h (iph (w_skb w')) \<and> nd_addr (nat_dest st) \<noteq> 0)"
       "pol_rc st \<in> {CALI_POL_NO_MATCH, CALI_POL_DENY}" for w' st
  proof (cases "skb_too_short h (w_skb w')")
    case True
    then show ?thesis by (simp add: calico_tc_skb_accepted_entrypoint_def)
  next
    case False
    let ?nd = "if nd_addr (nat_dest st) \<noteq> 0 then Some (nat_dest st) else None"
    have acc: "calico_tc_skb_accepted cfg h w' st ?nd =
                 acc_deny CALI_REASON_UNKNOWN (emit (EvSkbAccepted st) w') st"
      using that(2,3,4)
      by (auto simp: calico_tc_skb_accepted_def ttl_shortcut_def acc_new_def emit_def Let_def)
    show ?thesis
      using False that(1)
      by (simp add: calico_tc_skb_accepted_entrypoint_def acc acc_deny_def Let_def
          forward_or_drop_def fod_deny_def)
  qed
  {
    assume "pol_rc state \<in> {CALI_POL_NO_MATCH, CALI_POL_DENY}"
    with post[OF assms] show "verdict (calico_tc_skb_accepted_entrypoint cfg h w) = TC_ACT_SHOT" .
  next
    assume normal: "\<not> CALI_DEBUG_ALLOW_ALL cfg"
    let ?st = "state \<lparr> pol_rc := execute_policy_norm cfg h (ip_proto state) (ip_src state)
                                   (ip_dst state) (sport state) (dport state) \<rparr>"
    let ?w1 = "emit (EvTailCall 1) (emit (EvStateWrite ?st) (w \<lparr> cali_v4_state := Some ?st \<rparr>))"
    have "verdict (calico_tc_skb_accepted_entrypoint cfg h ?w1) = TC_ACT_SHOT"
      using assms(2,3) normal
      by (intro post[of ?w1 ?st]) (simp_all add: emit_def execute_policy_norm_def)
    then show "verdict (calico_tc_norm_pol_tail cfg h w) = TC_ACT_SHOT"
      using assms(1) by (simp add: calico_tc_norm_pol_tail_def Let_def)
  }
qed

theorem unmatched_new_flow_dropped_witness:
  "cali_v4_state (ex_world ex_skb ex_state) = Some ex_state
   \<and> rc (ct_result ex_state) = CALI_CT_NEW
   \<and> \<not> (ip_ttl_exceeded (ex_helpers FromWorkload) (iph (w_skb (ex_world ex_skb ex_state)))
         \<and> nd_addr (nat_dest ex_state) \<noteq> 0)
   \<and> \<not> CALI_DEBUG_ALLOW_ALL (ex_config FromWorkload)
   \<and> pol_rc ex_state \<in> {CALI_POL_NO_MATCH, CALI_POL_DENY}
   \<and> execute_policy_norm (ex_config FromWorkload) (ex_helpers FromWorkload) 6 0x0A000005
         0x0A600001 40000 80 \<in> {CALI_POL_NO_MATCH, CALI_POL_DENY}
   \<and> verdict (calico_tc_skb_accepted_entrypoint (ex_config FromWorkload) (ex_helpers FromWorkload)
                (ex_world ex_skb ex_state)) = TC_ACT_SHOT
   \<and> verdict (calico_tc_norm_pol_tail (ex_config FromWorkload) (ex_helpers FromWorkload)
                (ex_world ex_skb ex_state)) = TC_ACT_SHOT"
proof -
  have a: "cali_v4_state (ex_world ex_skb ex_state) = Some ex_state" by (simp add: ex_world_def)
  have b: "rc (ct_result ex_state) = CALI_CT_NEW" by (simp add: ex_state_def zero_state_def)
  have c: "\<not> (ip_ttl_exceeded (ex_helpers FromWorkload) (iph (w_skb (ex_world ex_skb ex_state)))
              \<and> nd_addr (nat_dest ex_state) \<noteq> 0)"
    by (simp add: ex_helpers_def ex_world_def ex_skb_def)
  have d: "\<not> CALI_DEBUG_ALLOW_ALL (ex_config FromWorkload)" by (simp add: ex_config_def)
  have e: "pol_rc ex_state \<in> {CALI_POL_NO_MATCH, CALI_POL_DENY}"
    by (simp add: ex_state_def zero_state_def)
  from unmatched_new_flow_dropped[OF a b c, of "ex_config FromWorkload" 6 "0x0A000005"
                                    "0x0A600001" 40000 80] d e
  have "execute_policy_norm (ex_config FromWorkload) (ex_helpers FromWorkload) 6 0x0A000005
          0x0A600001 40000 80 \<in> {CALI_POL_NO_MATCH, CALI_POL_DENY}"
       "verdict (calico_tc_skb_accepted_entrypoint (ex_config FromWorkload)
                   (ex_helpers FromWorkload) (ex_world ex_skb ex_state)) = TC_ACT_SHOT"
       "verdict (calico_tc_norm_pol_tail (ex_config FromWorkload) (ex_helpers FromWorkload)
                   (ex_world ex_skb ex_state)) = TC_ACT_SHOT"
    by blast+
  with a b c d e show ?thesis by (intro conjI)
qed

subsection \<open>DF set and too big to encapsulate\<close>















end
